theory Spec2Isabelle
  imports Complex_Main
begin

section \<open>OpenWeather exporter: the refresh cycle of \<open>main.go\<close>\<close>

text \<open>
  The development embeds \<open>fetchWeatherData\<close>, \<open>fetchAirPollutionData\<close> and
  \<open>updateMetrics\<close> of \<open>main.go\<close>. The program's state is the set of gauge
  vectors (the registry), extended by three observation logs that the claims speak
  about: the sequence of gauge writes, the sequence of HTTP requests issued and the
  sequence of lines handed to the logger.

  A \<open>float64\<close> is modelled by the real number it denotes: the program performs
  no arithmetic on the gauge values, it only passes them from the decoded payload to
  the gauges; the one conversion from an integer is modelled with its rounding.
\<close>

type_synonym float64 = real

subsection \<open>Response structures (lines 17 to 84)\<close>

text \<open>
  Fields of the anonymous inner structs carry the name of the enclosing field as a
  prefix, since record fields share one name space.
\<close>

record Coord =
  Coord_Lon :: float64
  Coord_Lat :: float64

record Weather =
  Weather_ID :: int
  Weather_Main :: string
  Weather_Description :: string
  Weather_Icon :: string

record Main =
  Main_Temp :: float64
  Main_FeelsLike :: float64
  Main_TempMin :: float64
  Main_TempMax :: float64
  Main_Pressure :: float64
  Main_Humidity :: float64
  Main_SeaLevel :: float64
  Main_GrndLevel :: float64

record Wind =
  Wind_Speed :: float64
  Wind_Deg :: float64

record Clouds =
  Clouds_All :: float64

record Sys =
  Sys_Type :: int
  Sys_ID :: int
  Sys_Country :: string
  Sys_Sunrise :: int
  Sys_Sunset :: int

record WeatherResponse =
  Coord :: Coord
  Weather :: "Weather list"
  Base :: string
  Main :: Main
  Visibility :: float64
  Wind :: Wind
  Clouds :: Clouds
  Dt :: int
  Sys :: Sys
  Timezone :: int
  ID :: int
  Name :: string
  Cod :: int

record ListMain =
  Main_AQI :: int

record Components =
  Components_CO :: float64
  Components_NO :: float64
  Components_NO2 :: float64
  Components_O3 :: float64
  Components_SO2 :: float64
  Components_PM25 :: float64
  Components_PM10 :: float64
  Components_NH3 :: float64

record ListEntry =
  List_Main :: ListMain
  List_Components :: Components
  List_Dt :: int

record AirPollutionResponse =
  AirPollution_Coord :: Coord
  AirPollution_List :: "ListEntry list"

text \<open>
  \<open>var weather WeatherResponse\<close> (line 286) and \<open>var pollution AirPollutionResponse\<close>
  (line 326) declare the decoding targets with Go's zero value: every number 0,
  every string empty, every slice nil.
\<close>

definition zero_Coord :: Coord where
  "zero_Coord = \<lparr>Coord_Lon = 0, Coord_Lat = 0\<rparr>"

definition zero_WeatherResponse :: WeatherResponse where
  "zero_WeatherResponse =
     \<lparr>Coord = zero_Coord,
      Weather = [],
      Base = [],
      Main = \<lparr>Main_Temp = 0, Main_FeelsLike = 0, Main_TempMin = 0, Main_TempMax = 0,
               Main_Pressure = 0, Main_Humidity = 0, Main_SeaLevel = 0, Main_GrndLevel = 0\<rparr>,
      Visibility = 0,
      Wind = \<lparr>Wind_Speed = 0, Wind_Deg = 0\<rparr>,
      Clouds = \<lparr>Clouds_All = 0\<rparr>,
      Dt = 0,
      Sys = \<lparr>Sys_Type = 0, Sys_ID = 0, Sys_Country = [], Sys_Sunrise = 0, Sys_Sunset = 0\<rparr>,
      Timezone = 0,
      ID = 0,
      Name = [],
      Cod = 0\<rparr>"

definition zero_AirPollutionResponse :: AirPollutionResponse where
  "zero_AirPollutionResponse = \<lparr>AirPollution_Coord = zero_Coord, AirPollution_List = []\<rparr>"

subsection \<open>The gauge vectors (lines 86 to 273)\<close>

datatype metric =
    owWeatherTemp
  | owWeatherFeelsLike
  | owWeatherTempMin
  | owWeatherTempMax
  | owWeatherPressure
  | owWeatherHumidity
  | owWeatherSeaLevel
  | owWeatherGrndLevel
  | owWeatherVisibility
  | owWeatherWindSpeed
  | owWeatherWindDeg
  | owWeatherClouds
  | owWeatherCondition
  | owAirPollutionAQI
  | owAirPollutionCO
  | owAirPollutionNO
  | owAirPollutionNO2
  | owAirPollutionO3
  | owAirPollutionSO2
  | owAirPollutionPM25
  | owAirPollutionPM10
  | owAirPollutionNH3

text \<open>The \<open>Name\<close> of each vector's \<open>GaugeOpts\<close>.\<close>

fun GaugeOpts_Name :: "metric \<Rightarrow> string" where
  "GaugeOpts_Name owWeatherTemp = ''ow_weather_temp''"
| "GaugeOpts_Name owWeatherFeelsLike = ''ow_weather_feels_like''"
| "GaugeOpts_Name owWeatherTempMin = ''ow_weather_temp_min''"
| "GaugeOpts_Name owWeatherTempMax = ''ow_weather_temp_max''"
| "GaugeOpts_Name owWeatherPressure = ''ow_weather_pressure''"
| "GaugeOpts_Name owWeatherHumidity = ''ow_weather_humidity''"
| "GaugeOpts_Name owWeatherSeaLevel = ''ow_weather_sea_level''"
| "GaugeOpts_Name owWeatherGrndLevel = ''ow_weather_grnd_level''"
| "GaugeOpts_Name owWeatherVisibility = ''ow_weather_visibility''"
| "GaugeOpts_Name owWeatherWindSpeed = ''ow_weather_wind_speed''"
| "GaugeOpts_Name owWeatherWindDeg = ''ow_weather_wind_deg''"
| "GaugeOpts_Name owWeatherClouds = ''ow_weather_clouds''"
| "GaugeOpts_Name owWeatherCondition = ''ow_weather_condition''"
| "GaugeOpts_Name owAirPollutionAQI = ''ow_air_pollution_aqi''"
| "GaugeOpts_Name owAirPollutionCO = ''ow_air_pollution_co''"
| "GaugeOpts_Name owAirPollutionNO = ''ow_air_pollution_no''"
| "GaugeOpts_Name owAirPollutionNO2 = ''ow_air_pollution_no2''"
| "GaugeOpts_Name owAirPollutionO3 = ''ow_air_pollution_o3''"
| "GaugeOpts_Name owAirPollutionSO2 = ''ow_air_pollution_so2''"
| "GaugeOpts_Name owAirPollutionPM25 = ''ow_air_pollution_pm2_5''"
| "GaugeOpts_Name owAirPollutionPM10 = ''ow_air_pollution_pm10''"
| "GaugeOpts_Name owAirPollutionNH3 = ''ow_air_pollution_nh3''"

text \<open>
  The label names each vector is created with: the second argument of
  \<open>prometheus.NewGaugeVec\<close>.
\<close>

definition labelNames :: "metric \<Rightarrow> string list" where
  "labelNames m =
     (if m = owWeatherCondition then [''station'', ''main'', ''description'']
      else [''station''])"

text \<open>The vectors updated by \<open>fetchAirPollutionData\<close>.\<close>

definition isAirPollution :: "metric \<Rightarrow> bool" where
  "isAirPollution m \<longleftrightarrow>
     m \<in> set [owAirPollutionAQI, owAirPollutionCO, owAirPollutionNO, owAirPollutionNO2,
              owAirPollutionO3, owAirPollutionSO2, owAirPollutionPM25, owAirPollutionPM10,
              owAirPollutionNH3]"

subsection \<open>State\<close>

text \<open>
  An observation is one call \<open>vec.WithLabelValues(labels...).Set(value)\<close>.
\<close>

record observation =
  series :: metric
  labels :: "string list"
  val :: float64

type_synonym registry = "metric \<times> string list \<Rightarrow> float64 option"

datatype error =
    FailedToFetchWeather string
  | WeatherStatusCode int
  | FailedToDecodeWeather string
  | FailedToFetchAirPollution string
  | AirPollutionStatusCode int
  | FailedToDecodeAirPollution string

datatype log_line =
    ErrorFetchingWeatherData error
  | ErrorFetchingAirPollutionData error

record state =
  registry :: registry
  writes :: "observation list"
  requests :: "string list"
  logged :: "log_line list"

text \<open>
  Modelled from the spec: the gauge vectors are those of the Prometheus client
  library, which is not part of the repository. Following section 4.3 of the
  specification, \<open>set(series, labels, value)\<close> overwrites (or creates) the entry for
  that key and never fails, and there is no delete operation. The write is also
  appended to the log of writes. (The library refuses a call whose number of label
  values differs from the number of label names of the vector; the lemmas
  \<open>weatherObservations_station\<close> and \<open>airPollutionObservations_station\<close> show that
  every call of the program passes the right number.)
\<close>

definition WithLabelValues_Set :: "metric \<Rightarrow> string list \<Rightarrow> float64 \<Rightarrow> state \<Rightarrow> state" where
  "WithLabelValues_Set m lvs v s =
     s\<lparr>registry := (registry s)((m, lvs) \<mapsto> v),
       writes := writes s @ [\<lparr>series = m, labels = lvs, val = v\<rparr>]\<rparr>"

text \<open>
  Modelled from the spec: \<open>snapshot()\<close> returns all current entries; the entry of a
  key is read by looking the key up.
\<close>

definition snapshot :: "state \<Rightarrow> registry" where
  "snapshot s = registry s"

subsection \<open>The environment: network and JSON decoder\<close>

text \<open>
  \<open>http.Get\<close> and \<open>json.Decoder.Decode\<close> belong to Go's standard library and are
  parameters of the model. The network answers the \<open>n\<close>-th request of the process for
  a URL either with a transport error or with a response; the decoder updates the
  target struct passed by reference from a body, or fails.
\<close>

record 'b Response =
  StatusCode :: int
  Body :: 'b

record 'b env =
  httpGet :: "nat \<Rightarrow> string \<Rightarrow> string + 'b Response"
  decodeWeather :: "'b \<Rightarrow> WeatherResponse \<Rightarrow> string + WeatherResponse"
  decodeAirPollution :: "'b \<Rightarrow> AirPollutionResponse \<Rightarrow> string + AirPollutionResponse"

definition StatusOK :: int where
  "StatusOK = 200"

text \<open>
  \<open>http.Get(url)\<close>: the request is recorded, the answer comes from the environment.
\<close>

definition http_Get :: "'b env \<Rightarrow> string \<Rightarrow> state \<Rightarrow> (string + 'b Response) \<times> state" where
  "http_Get env url s =
     (httpGet env (length (requests s)) url, s\<lparr>requests := requests s @ [url]\<rparr>)"

subsection \<open>\<open>strconv.Itoa\<close>\<close>

definition digits :: string where
  "digits = ''0123456789''"

function formatUint :: "nat \<Rightarrow> string" where
  "formatUint n = (if n < 10 then [digits ! n] else formatUint (n div 10) @ [digits ! (n mod 10)])"
  by pat_completeness auto
termination
  by (relation "measure id") auto

declare formatUint.simps [simp del]

definition Itoa :: "int \<Rightarrow> string" where
  "Itoa i = (if i < 0 then CHR ''-'' # formatUint (nat (- i)) else formatUint (nat i))"

text \<open>
  The integer a decimal string denotes, with an optional leading minus sign. It is
  not part of the program; it states what the string returned by \<open>Itoa\<close> means.
\<close>

definition digit_value :: "char \<Rightarrow> nat" where
  "digit_value c = of_char c - 48"

definition decimal_nat :: "string \<Rightarrow> nat" where
  "decimal_nat ds = foldl (\<lambda>acc c. 10 * acc + digit_value c) 0 ds"

definition decimal_int :: "string \<Rightarrow> int" where
  "decimal_int str =
     (case str of
        [] \<Rightarrow> 0
      | c # ds \<Rightarrow> if c = CHR ''-'' then - int (decimal_nat ds) else int (decimal_nat str))"

subsection \<open>\<open>fetchWeatherData\<close> (lines 275 to 313)\<close>

text \<open>Lines 294 to 310: the gauge writes, in the order of the source.\<close>

definition updateWeatherMetrics :: "string \<Rightarrow> WeatherResponse \<Rightarrow> state \<Rightarrow> state" where
  "updateWeatherMetrics station weather s =
     (let s = WithLabelValues_Set owWeatherTemp [station] (Main_Temp (Main weather)) s;
          s = WithLabelValues_Set owWeatherFeelsLike [station] (Main_FeelsLike (Main weather)) s;
          s = WithLabelValues_Set owWeatherTempMin [station] (Main_TempMin (Main weather)) s;
          s = WithLabelValues_Set owWeatherTempMax [station] (Main_TempMax (Main weather)) s;
          s = WithLabelValues_Set owWeatherPressure [station] (Main_Pressure (Main weather)) s;
          s = WithLabelValues_Set owWeatherHumidity [station] (Main_Humidity (Main weather)) s;
          s = WithLabelValues_Set owWeatherSeaLevel [station] (Main_SeaLevel (Main weather)) s;
          s = WithLabelValues_Set owWeatherGrndLevel [station] (Main_GrndLevel (Main weather)) s;
          s = WithLabelValues_Set owWeatherVisibility [station] (Visibility weather) s;
          s = WithLabelValues_Set owWeatherWindSpeed [station] (Wind_Speed (Wind weather)) s;
          s = WithLabelValues_Set owWeatherWindDeg [station] (Wind_Deg (Wind weather)) s;
          s = WithLabelValues_Set owWeatherClouds [station] (Clouds_All (Clouds weather)) s
      in if length (Weather weather) > 0
         then WithLabelValues_Set owWeatherCondition
                [station, Weather_Main (Weather weather ! 0),
                 Weather_Description (Weather weather ! 0)] 1 s
         else s)"

definition fetchWeatherData :: "'b env \<Rightarrow> string \<Rightarrow> state \<Rightarrow> (error + string) \<times> state" where
  "fetchWeatherData env url s =
     (let (got, s) = http_Get env url s in
      case got of
        Inl err \<Rightarrow> (Inl (FailedToFetchWeather err), s)
      | Inr resp \<Rightarrow>
          if StatusCode resp \<noteq> StatusOK
          then (Inl (WeatherStatusCode (StatusCode resp)), s)
          else (case decodeWeather env (Body resp) zero_WeatherResponse of
                  Inl err \<Rightarrow> (Inl (FailedToDecodeWeather err), s)
                | Inr weather \<Rightarrow>
                    (let station = Itoa (ID weather)
                     in (Inr station, updateWeatherMetrics station weather s))))"

subsection \<open>\<open>fetchAirPollutionData\<close> (lines 315 to 346)\<close>

text \<open>
  The conversion \<open>float64(data.Main.AQI)\<close> of line 334 rounds the integer to the
  nearest \<open>float64\<close>, to the one with the even significand when two are equally
  near. A \<open>float64\<close> has a significand of 53 bits: \<open>shift53 n\<close> is the number of low
  bits of \<open>n\<close> that do not fit, \<open>float64_of_nat\<close> rounds them away. (A Go \<open>int\<close>
  has at most 64 bits, far below the largest \<open>float64\<close>.)
\<close>

function shift53 :: "nat \<Rightarrow> nat" where
  "shift53 n = (if n < 2 ^ 53 then 0 else Suc (shift53 (n div 2)))"
  by pat_completeness auto
termination
  by (relation "measure id") auto

declare shift53.simps [simp del]

definition float64_of_nat :: "nat \<Rightarrow> nat" where
  "float64_of_nat n =
     (let e = shift53 n; q = n div 2 ^ e; r = n mod 2 ^ e
      in if 2 * r > 2 ^ e \<or> (2 * r = 2 ^ e \<and> odd q) then (q + 1) * 2 ^ e else q * 2 ^ e)"

definition float64_of_int :: "int \<Rightarrow> float64" where
  "float64_of_int i =
     (if i < 0 then - of_nat (float64_of_nat (nat (- i))) else of_nat (float64_of_nat (nat i)))"

text \<open>Lines 332 to 343.\<close>

definition updateAirPollutionMetrics :: "string \<Rightarrow> AirPollutionResponse \<Rightarrow> state \<Rightarrow> state" where
  "updateAirPollutionMetrics station pollution s =
     (if length (AirPollution_List pollution) > 0
      then (let data = AirPollution_List pollution ! 0;
                s = WithLabelValues_Set owAirPollutionAQI [station] (float64_of_int (Main_AQI (List_Main data))) s;
                s = WithLabelValues_Set owAirPollutionCO [station] (Components_CO (List_Components data)) s;
                s = WithLabelValues_Set owAirPollutionNO [station] (Components_NO (List_Components data)) s;
                s = WithLabelValues_Set owAirPollutionNO2 [station] (Components_NO2 (List_Components data)) s;
                s = WithLabelValues_Set owAirPollutionO3 [station] (Components_O3 (List_Components data)) s;
                s = WithLabelValues_Set owAirPollutionSO2 [station] (Components_SO2 (List_Components data)) s;
                s = WithLabelValues_Set owAirPollutionPM25 [station] (Components_PM25 (List_Components data)) s;
                s = WithLabelValues_Set owAirPollutionPM10 [station] (Components_PM10 (List_Components data)) s
            in WithLabelValues_Set owAirPollutionNH3 [station] (Components_NH3 (List_Components data)) s)
      else s)"

text \<open>The result is the returned error, \<open>None\<close> for \<open>nil\<close>.\<close>

definition fetchAirPollutionData :: "'b env \<Rightarrow> string \<Rightarrow> string \<Rightarrow> state \<Rightarrow> error option \<times> state" where
  "fetchAirPollutionData env url station s =
     (let (got, s) = http_Get env url s in
      case got of
        Inl err \<Rightarrow> (Some (FailedToFetchAirPollution err), s)
      | Inr resp \<Rightarrow>
          if StatusCode resp \<noteq> StatusOK
          then (Some (AirPollutionStatusCode (StatusCode resp)), s)
          else (case decodeAirPollution env (Body resp) zero_AirPollutionResponse of
                  Inl err \<Rightarrow> (Some (FailedToDecodeAirPollution err), s)
                | Inr pollution \<Rightarrow> (None, updateAirPollutionMetrics station pollution s)))"

subsection \<open>\<open>updateMetrics\<close> (lines 348 to 358)\<close>

definition log_Printf :: "log_line \<Rightarrow> state \<Rightarrow> state" where
  "log_Printf l s = s\<lparr>logged := logged s @ [l]\<rparr>"

definition updateMetrics :: "'b env \<Rightarrow> string \<Rightarrow> string \<Rightarrow> state \<Rightarrow> state" where
  "updateMetrics env weatherURL pollutionURL s =
     (let (res, s) = fetchWeatherData env weatherURL s in
      case res of
        Inl err \<Rightarrow> log_Printf (ErrorFetchingWeatherData err) s
      | Inr station \<Rightarrow>
          (let (res, s) = fetchAirPollutionData env pollutionURL station s in
           case res of
             Some err \<Rightarrow> log_Printf (ErrorFetchingAirPollutionData err) s
           | None \<Rightarrow> s))"

subsection \<open>Observers used in the statements\<close>

text \<open>The gauge writes and the requests performed between a state and a later one.\<close>

definition written :: "state \<Rightarrow> state \<Rightarrow> observation list" where
  "written s s' = drop (length (writes s)) (writes s')"

definition requested :: "state \<Rightarrow> state \<Rightarrow> string list" where
  "requested s s' = drop (length (requests s)) (requests s')"

text \<open>The writes of lines 294 to 310 and of lines 334 to 342, as lists.\<close>

definition weatherObservations :: "string \<Rightarrow> WeatherResponse \<Rightarrow> observation list" where
  "weatherObservations station weather =
     [\<lparr>series = owWeatherTemp, labels = [station], val = Main_Temp (Main weather)\<rparr>,
      \<lparr>series = owWeatherFeelsLike, labels = [station], val = Main_FeelsLike (Main weather)\<rparr>,
      \<lparr>series = owWeatherTempMin, labels = [station], val = Main_TempMin (Main weather)\<rparr>,
      \<lparr>series = owWeatherTempMax, labels = [station], val = Main_TempMax (Main weather)\<rparr>,
      \<lparr>series = owWeatherPressure, labels = [station], val = Main_Pressure (Main weather)\<rparr>,
      \<lparr>series = owWeatherHumidity, labels = [station], val = Main_Humidity (Main weather)\<rparr>,
      \<lparr>series = owWeatherSeaLevel, labels = [station], val = Main_SeaLevel (Main weather)\<rparr>,
      \<lparr>series = owWeatherGrndLevel, labels = [station], val = Main_GrndLevel (Main weather)\<rparr>,
      \<lparr>series = owWeatherVisibility, labels = [station], val = Visibility weather\<rparr>,
      \<lparr>series = owWeatherWindSpeed, labels = [station], val = Wind_Speed (Wind weather)\<rparr>,
      \<lparr>series = owWeatherWindDeg, labels = [station], val = Wind_Deg (Wind weather)\<rparr>,
      \<lparr>series = owWeatherClouds, labels = [station], val = Clouds_All (Clouds weather)\<rparr>]
     @ (case Weather weather of
          [] \<Rightarrow> []
        | c # _ \<Rightarrow> [\<lparr>series = owWeatherCondition,
                      labels = [station, Weather_Main c, Weather_Description c], val = 1\<rparr>])"

definition airPollutionObservations :: "string \<Rightarrow> AirPollutionResponse \<Rightarrow> observation list" where
  "airPollutionObservations station pollution =
     (case AirPollution_List pollution of
        [] \<Rightarrow> []
      | data # _ \<Rightarrow>
          [\<lparr>series = owAirPollutionAQI, labels = [station], val = float64_of_int (Main_AQI (List_Main data))\<rparr>,
           \<lparr>series = owAirPollutionCO, labels = [station], val = Components_CO (List_Components data)\<rparr>,
           \<lparr>series = owAirPollutionNO, labels = [station], val = Components_NO (List_Components data)\<rparr>,
           \<lparr>series = owAirPollutionNO2, labels = [station], val = Components_NO2 (List_Components data)\<rparr>,
           \<lparr>series = owAirPollutionO3, labels = [station], val = Components_O3 (List_Components data)\<rparr>,
           \<lparr>series = owAirPollutionSO2, labels = [station], val = Components_SO2 (List_Components data)\<rparr>,
           \<lparr>series = owAirPollutionPM25, labels = [station], val = Components_PM25 (List_Components data)\<rparr>,
           \<lparr>series = owAirPollutionPM10, labels = [station], val = Components_PM10 (List_Components data)\<rparr>,
           \<lparr>series = owAirPollutionNH3, labels = [station], val = Components_NH3 (List_Components data)\<rparr>])"

text \<open>The registry key of an observation.\<close>

definition key :: "observation \<Rightarrow> metric \<times> string list" where
  "key ob = (series ob, labels ob)"

text \<open>Replaying a list of observations on a registry, first to last.\<close>

definition store :: "observation \<Rightarrow> registry \<Rightarrow> registry" where
  "store ob r = r((series ob, labels ob) \<mapsto> val ob)"

subsection \<open>Scenarios\<close>

text \<open>
  The state at process start: \<open>init\<close> registers the vectors, none has a child yet.
\<close>

definition initial_state :: state where
  "initial_state = \<lparr>registry = Map.empty, writes = [], requests = [], logged = []\<rparr>"

text \<open>
  A state left by an earlier cycle for station 42.
\<close>

definition earlier_state :: state where
  "earlier_state =
     \<lparr>registry = [(owWeatherTemp, [''42'']) \<mapsto> 10, (owAirPollutionAQI, [''42'']) \<mapsto> 2],
      writes = [\<lparr>series = owWeatherTemp, labels = [''42''], val = 10\<rparr>,
                \<lparr>series = owAirPollutionAQI, labels = [''42''], val = 2\<rparr>],
      requests = [''weather'', ''air_pollution''],
      logged = []\<rparr>"

text \<open>
  The scenarios of section 8 of the specification. Decoding the weather body
  \<open>{id: 42, main: {temp: 15.5, humidity: 70}, weather: [{main: "Clouds", description:
  "overcast clouds"}]}\<close> assigns the fields present in it; so does decoding the
  pollution body \<open>{list: [{main: {aqi: 3}, components: {co: 201.5, pm2_5: 8.75}}]}\<close>,
  whose concentrations are chosen among the numbers a \<open>float64\<close> holds exactly.
  A third weather body has no \<open>id\<close>; a second pollution body carries an index
  beyond \<open>2^53\<close>.
\<close>

definition scenario_weather :: "WeatherResponse \<Rightarrow> WeatherResponse" where
  "scenario_weather w =
     w\<lparr>ID := 42,
       Main := (Main w)\<lparr>Main_Temp := 15.5, Main_Humidity := 70\<rparr>,
       Weather := [\<lparr>Weather_ID = 0, Weather_Main = ''Clouds'',
                    Weather_Description = ''overcast clouds'', Weather_Icon = []\<rparr>]\<rparr>"

definition scenario_weather_without_id :: "WeatherResponse \<Rightarrow> WeatherResponse" where
  "scenario_weather_without_id w = w\<lparr>Main := (Main w)\<lparr>Main_Temp := 15.5, Main_Humidity := 70\<rparr>\<rparr>"

definition scenario_pollution :: "AirPollutionResponse \<Rightarrow> AirPollutionResponse" where
  "scenario_pollution p =
     p\<lparr>AirPollution_List :=
         [\<lparr>List_Main = \<lparr>Main_AQI = 3\<rparr>,
           List_Components =
             \<lparr>Components_CO = 201.5, Components_NO = 0, Components_NO2 = 0, Components_O3 = 0,
              Components_SO2 = 0, Components_PM25 = 8.75, Components_PM10 = 0, Components_NH3 = 0\<rparr>,
           List_Dt = 0\<rparr>]\<rparr>"

definition scenario_pollution_large :: "AirPollutionResponse \<Rightarrow> AirPollutionResponse" where
  "scenario_pollution_large p =
     p\<lparr>AirPollution_List :=
         [\<lparr>List_Main = \<lparr>Main_AQI = 9007199254740993\<rparr>,
           List_Components =
             \<lparr>Components_CO = 0, Components_NO = 0, Components_NO2 = 0, Components_O3 = 0,
              Components_SO2 = 0, Components_PM25 = 0, Components_PM10 = 0, Components_NH3 = 0\<rparr>,
           List_Dt = 0\<rparr>]\<rparr>"

text \<open>
  An environment that answers the URL \<open>weather\<close> with status \<open>wcode\<close> and any other URL
  with status \<open>pcode\<close>; the weather body decodes by \<open>wjson\<close>, the pollution body is the
  one above.
\<close>

definition scenario_env :: "int \<Rightarrow> int \<Rightarrow> (WeatherResponse \<Rightarrow> WeatherResponse) \<Rightarrow> unit env" where
  "scenario_env wcode pcode wjson =
     \<lparr>httpGet = (\<lambda>n url. Inr \<lparr>StatusCode = (if url = ''weather'' then wcode else pcode), Body = ()\<rparr>),
      decodeWeather = (\<lambda>b w. Inr (wjson w)),
      decodeAirPollution = (\<lambda>b p. Inr (scenario_pollution p))\<rparr>"

section \<open>Basic facts\<close>

lemma WithLabelValues_Set_fields [simp]:
  "registry (WithLabelValues_Set m lvs v s) = (registry s)((m, lvs) \<mapsto> v)"
  "writes (WithLabelValues_Set m lvs v s) = writes s @ [\<lparr>series = m, labels = lvs, val = v\<rparr>]"
  "requests (WithLabelValues_Set m lvs v s) = requests s"
  "logged (WithLabelValues_Set m lvs v s) = logged s"
  by (simp_all add: WithLabelValues_Set_def)

lemma writes_updateWeatherMetrics:
  "writes (updateWeatherMetrics station weather s) = writes s @ weatherObservations station weather"
  by (cases "Weather weather")
     (simp_all add: updateWeatherMetrics_def weatherObservations_def Let_def)

lemma writes_updateAirPollutionMetrics:
  "writes (updateAirPollutionMetrics station pollution s) =
     writes s @ airPollutionObservations station pollution"
  by (cases "AirPollution_List pollution")
     (simp_all add: updateAirPollutionMetrics_def airPollutionObservations_def Let_def)

lemma registry_updateWeatherMetrics:
  "registry (updateWeatherMetrics station weather s) =
     fold store (weatherObservations station weather) (registry s)"
  by (cases "Weather weather")
     (simp_all add: updateWeatherMetrics_def weatherObservations_def Let_def store_def)

lemma registry_updateAirPollutionMetrics:
  "registry (updateAirPollutionMetrics station pollution s) =
     fold store (airPollutionObservations station pollution) (registry s)"
  by (cases "AirPollution_List pollution")
     (simp_all add: updateAirPollutionMetrics_def airPollutionObservations_def Let_def store_def)

lemma frame_updateWeatherMetrics [simp]:
  "requests (updateWeatherMetrics station weather s) = requests s"
  "logged (updateWeatherMetrics station weather s) = logged s"
  by (simp_all add: updateWeatherMetrics_def Let_def)

lemma frame_updateAirPollutionMetrics [simp]:
  "requests (updateAirPollutionMetrics station pollution s) = requests s"
  "logged (updateAirPollutionMetrics station pollution s) = logged s"
  by (simp_all add: updateAirPollutionMetrics_def Let_def)

subsection \<open>The paths through a fetch\<close>

lemma http_Get_simps [simp]:
  "fst (http_Get env url s) = httpGet env (length (requests s)) url"
  "snd (http_Get env url s) = s\<lparr>requests := requests s @ [url]\<rparr>"
  by (simp_all add: http_Get_def)

lemma fetchWeatherData_transport:
  "httpGet env (length (requests s)) url = Inl e \<Longrightarrow>
   fetchWeatherData env url s = (Inl (FailedToFetchWeather e), s\<lparr>requests := requests s @ [url]\<rparr>)"
  by (simp add: fetchWeatherData_def http_Get_def)

lemma fetchWeatherData_status:
  "httpGet env (length (requests s)) url = Inr resp \<Longrightarrow> StatusCode resp \<noteq> StatusOK \<Longrightarrow>
   fetchWeatherData env url s =
     (Inl (WeatherStatusCode (StatusCode resp)), s\<lparr>requests := requests s @ [url]\<rparr>)"
  by (simp add: fetchWeatherData_def http_Get_def)

lemma fetchWeatherData_decode:
  "httpGet env (length (requests s)) url = Inr resp \<Longrightarrow> StatusCode resp = StatusOK \<Longrightarrow>
   decodeWeather env (Body resp) zero_WeatherResponse = Inl e \<Longrightarrow>
   fetchWeatherData env url s = (Inl (FailedToDecodeWeather e), s\<lparr>requests := requests s @ [url]\<rparr>)"
  by (simp add: fetchWeatherData_def http_Get_def)

lemma fetchWeatherData_ok:
  "httpGet env (length (requests s)) url = Inr resp \<Longrightarrow> StatusCode resp = StatusOK \<Longrightarrow>
   decodeWeather env (Body resp) zero_WeatherResponse = Inr weather \<Longrightarrow>
   fetchWeatherData env url s =
     (Inr (Itoa (ID weather)),
      updateWeatherMetrics (Itoa (ID weather)) weather (s\<lparr>requests := requests s @ [url]\<rparr>))"
  by (simp add: fetchWeatherData_def http_Get_def Let_def)

lemma fetchAirPollutionData_transport:
  "httpGet env (length (requests s)) url = Inl e \<Longrightarrow>
   fetchAirPollutionData env url station s =
     (Some (FailedToFetchAirPollution e), s\<lparr>requests := requests s @ [url]\<rparr>)"
  by (simp add: fetchAirPollutionData_def http_Get_def)

lemma fetchAirPollutionData_status:
  "httpGet env (length (requests s)) url = Inr resp \<Longrightarrow> StatusCode resp \<noteq> StatusOK \<Longrightarrow>
   fetchAirPollutionData env url station s =
     (Some (AirPollutionStatusCode (StatusCode resp)), s\<lparr>requests := requests s @ [url]\<rparr>)"
  by (simp add: fetchAirPollutionData_def http_Get_def)

lemma fetchAirPollutionData_decode:
  "httpGet env (length (requests s)) url = Inr resp \<Longrightarrow> StatusCode resp = StatusOK \<Longrightarrow>
   decodeAirPollution env (Body resp) zero_AirPollutionResponse = Inl e \<Longrightarrow>
   fetchAirPollutionData env url station s =
     (Some (FailedToDecodeAirPollution e), s\<lparr>requests := requests s @ [url]\<rparr>)"
  by (simp add: fetchAirPollutionData_def http_Get_def)

lemma fetchAirPollutionData_ok:
  "httpGet env (length (requests s)) url = Inr resp \<Longrightarrow> StatusCode resp = StatusOK \<Longrightarrow>
   decodeAirPollution env (Body resp) zero_AirPollutionResponse = Inr pollution \<Longrightarrow>
   fetchAirPollutionData env url station s =
     (None, updateAirPollutionMetrics station pollution (s\<lparr>requests := requests s @ [url]\<rparr>))"
  by (simp add: fetchAirPollutionData_def http_Get_def)

text \<open>Every run of a fetch takes exactly one of the four paths.\<close>

lemma fetchWeatherData_paths:
  obtains (transport) e where "httpGet env (length (requests s)) url = Inl e"
  | (status) resp where "httpGet env (length (requests s)) url = Inr resp" "StatusCode resp \<noteq> StatusOK"
  | (decode) resp e where "httpGet env (length (requests s)) url = Inr resp" "StatusCode resp = StatusOK"
      "decodeWeather env (Body resp) zero_WeatherResponse = Inl e"
  | (ok) resp weather where "httpGet env (length (requests s)) url = Inr resp" "StatusCode resp = StatusOK"
      "decodeWeather env (Body resp) zero_WeatherResponse = Inr weather"
proof (cases "httpGet env (length (requests s)) url")
  case (Inl e)
  then show ?thesis by (rule transport)
next
  case (Inr resp)
  show ?thesis
  proof (cases "StatusCode resp = StatusOK")
    case False
    with Inr show ?thesis by (rule status)
  next
    case True
    show ?thesis
      by (cases "decodeWeather env (Body resp) zero_WeatherResponse")
         (use Inr True in \<open>auto intro: decode ok\<close>)
  qed
qed

lemma fetchWeatherData_error_state:
  assumes "fst (fetchWeatherData env url s) = Inl err"
  shows "snd (fetchWeatherData env url s) = s\<lparr>requests := requests s @ [url]\<rparr>"
  using assms
  by (cases rule: fetchWeatherData_paths [of env s url])
     (simp_all add: fetchWeatherData_transport fetchWeatherData_status fetchWeatherData_decode
        fetchWeatherData_ok)

lemma fetchAirPollutionData_error_state:
  assumes "fst (fetchAirPollutionData env url station s) = Some err"
  shows "snd (fetchAirPollutionData env url station s) = s\<lparr>requests := requests s @ [url]\<rparr>"
  using assms
  by (auto simp: fetchAirPollutionData_def http_Get_def split: sum.splits if_splits)

subsection \<open>What a cycle wrote and requested\<close>

lemma written_append [simp]: "writes s' = writes s @ obs \<Longrightarrow> written s s' = obs"
  by (simp add: written_def)

lemma requested_append [simp]: "requests s' = requests s @ urls \<Longrightarrow> requested s s' = urls"
  by (simp add: requested_def)

lemma updateMetrics_weather_error:
  assumes "fst (fetchWeatherData env weatherURL s) = Inl err"
  shows "updateMetrics env weatherURL pollutionURL s =
           s\<lparr>requests := requests s @ [weatherURL],
             logged := logged s @ [ErrorFetchingWeatherData err]\<rparr>"
proof -
  obtain res s1 where f: "fetchWeatherData env weatherURL s = (res, s1)"
    by (cases "fetchWeatherData env weatherURL s")
  with assms have res: "res = Inl err" by simp
  from fetchWeatherData_error_state [OF assms] f
  have s1: "s1 = s\<lparr>requests := requests s @ [weatherURL]\<rparr>" by simp
  show ?thesis
    by (simp add: updateMetrics_def f res s1 log_Printf_def)
qed

subsection \<open>Replaying observations\<close>


lemma fold_store_other:
  "k \<notin> key ` set obs \<Longrightarrow> fold store obs r k = r k"
  by (induction obs arbitrary: r) (auto simp: store_def key_def)

lemma fold_store_member:
  "distinct (map key obs) \<Longrightarrow> ob \<in> set obs \<Longrightarrow> fold store obs r (key ob) = Some (val ob)"
proof (induction obs arbitrary: r)
  case Nil
  then show ?case by simp
next
  case (Cons a obs)
  show ?case
  proof (cases "ob = a")
    case True
    with Cons.prems have "key a \<notin> key ` set obs" by simp
    then have "fold store obs (store a r) (key a) = store a r (key a)"
      by (rule fold_store_other)
    moreover have "store a r (key a) = Some (val a)"
      by (simp add: store_def key_def)
    ultimately show ?thesis using True by simp
  next
    case False
    with Cons show ?thesis by simp
  qed
qed

lemma distinct_weatherObservations:
  "distinct (map key (weatherObservations station weather))"
  by (cases "Weather weather") (simp_all add: weatherObservations_def key_def)

lemma distinct_airPollutionObservations:
  "distinct (map key (airPollutionObservations station pollution))"
  by (cases "AirPollution_List pollution") (simp_all add: airPollutionObservations_def key_def)

lemma weatherObservations_not_AirPollution:
  "ob \<in> set (weatherObservations station weather) \<Longrightarrow> \<not> isAirPollution (series ob)"
  by (cases "Weather weather") (auto simp: weatherObservations_def isAirPollution_def)

lemma airPollutionObservations_isAirPollution:
  "ob \<in> set (airPollutionObservations station pollution) \<Longrightarrow> isAirPollution (series ob)"
  by (cases "AirPollution_List pollution") (auto simp: airPollutionObservations_def isAirPollution_def)

lemma weatherObservations_station:
  "ob \<in> set (weatherObservations station weather) \<Longrightarrow>
     labels ob \<noteq> [] \<and> hd (labels ob) = station \<and> length (labels ob) = length (labelNames (series ob))"
  by (cases "Weather weather") (auto simp: weatherObservations_def labelNames_def)

lemma airPollutionObservations_station:
  "ob \<in> set (airPollutionObservations station pollution) \<Longrightarrow>
     labels ob = [station] \<and> labelNames (series ob) = [''station'']"
  by (cases "AirPollution_List pollution") (auto simp: airPollutionObservations_def labelNames_def)

lemma registry_weather_kept:
  assumes "ob \<in> set (weatherObservations station weather)"
  shows "registry (updateWeatherMetrics station weather s) (series ob, labels ob) = Some (val ob)"
  using fold_store_member [OF distinct_weatherObservations assms, of "registry s"]
  by (simp add: registry_updateWeatherMetrics key_def)

lemma registry_weather_frame:
  assumes "isAirPollution m"
  shows "registry (updateWeatherMetrics station weather s) (m, lvs) = registry s (m, lvs)"
proof -
  have "(m, lvs) \<notin> key ` set (weatherObservations station weather)"
    using assms weatherObservations_not_AirPollution [of _ station weather]
    by (auto simp: key_def)
  then show ?thesis
    by (simp add: registry_updateWeatherMetrics fold_store_other)
qed

subsection \<open>A cycle whose weather fetch succeeded\<close>

lemma updateMetrics_weather_ok:
  assumes "fetchWeatherData env weatherURL s = (Inr station, s1)"
  shows "updateMetrics env weatherURL pollutionURL s =
           (case fst (fetchAirPollutionData env pollutionURL station s1) of
              Some err \<Rightarrow> log_Printf (ErrorFetchingAirPollutionData err)
                            (snd (fetchAirPollutionData env pollutionURL station s1))
            | None \<Rightarrow> snd (fetchAirPollutionData env pollutionURL station s1))"
  by (simp add: updateMetrics_def assms split_beta)

lemma fetchAirPollutionData_fails:
  assumes "(\<exists>e. httpGet env (length (requests s)) url = Inl e)
         \<or> (\<exists>resp. httpGet env (length (requests s)) url = Inr resp
               \<and> (StatusCode resp \<noteq> 200
                  \<or> (\<exists>e. decodeAirPollution env (Body resp) zero_AirPollutionResponse = Inl e)))"
  shows "\<exists>err. fetchAirPollutionData env url station s
                 = (Some err, s\<lparr>requests := requests s @ [url]\<rparr>)"
  using assms
  by (auto simp: fetchAirPollutionData_def http_Get_def StatusOK_def split: sum.splits)

section \<open>The refresh cycle\<close>

text \<open>
  Claim C1. In every refresh cycle whose weather fetch fails, by a transport error,
  by a status other than OK (such as 401) or by a decode error, the cycle aborts:
  the registry is as it was before the cycle, no gauge is written, the only request
  issued is the weather request (the pollution fetch is not attempted), and the
  error is logged.
\<close>

theorem weather_failure_aborts_cycle:
  assumes "(\<exists>e. httpGet env (length (requests s)) weatherURL = Inl e)
         \<or> (\<exists>resp. httpGet env (length (requests s)) weatherURL = Inr resp
               \<and> (StatusCode resp \<noteq> 200
                  \<or> (\<exists>e. decodeWeather env (Body resp) zero_WeatherResponse = Inl e)))"
  shows "registry (updateMetrics env weatherURL pollutionURL s) = registry s
       \<and> written s (updateMetrics env weatherURL pollutionURL s) = []
       \<and> requested s (updateMetrics env weatherURL pollutionURL s) = [weatherURL]
       \<and> (\<exists>err. logged (updateMetrics env weatherURL pollutionURL s)
                  = logged s @ [ErrorFetchingWeatherData err])"
proof -
  have "\<exists>err. fst (fetchWeatherData env weatherURL s) = Inl err"
  proof (cases rule: fetchWeatherData_paths [of env s weatherURL])
    case (transport e)
    then show ?thesis by (simp add: fetchWeatherData_transport)
  next
    case (status resp)
    then show ?thesis by (simp add: fetchWeatherData_status)
  next
    case (decode resp e)
    then show ?thesis by (simp add: fetchWeatherData_decode)
  next
    case (ok resp weather)
    with assms show ?thesis by (auto simp: StatusOK_def)
  qed
  then obtain err where "fst (fetchWeatherData env weatherURL s) = Inl err" ..
  then have "updateMetrics env weatherURL pollutionURL s =
               s\<lparr>requests := requests s @ [weatherURL],
                 logged := logged s @ [ErrorFetchingWeatherData err]\<rparr>"
    by (rule updateMetrics_weather_error)
  then show ?thesis by simp
qed

theorem weather_failure_aborts_cycle_witness:
  "httpGet (scenario_env 401 200 scenario_weather) (length (requests earlier_state)) ''weather''
     = Inr \<lparr>StatusCode = 401, Body = ()\<rparr>
   \<and> registry (updateMetrics (scenario_env 401 200 scenario_weather) ''weather'' ''air_pollution'' earlier_state)
       = registry earlier_state
   \<and> requested earlier_state
       (updateMetrics (scenario_env 401 200 scenario_weather) ''weather'' ''air_pollution'' earlier_state)
       = [''weather'']"
  using weather_failure_aborts_cycle
    [of "scenario_env 401 200 scenario_weather" earlier_state "''weather''" "''air_pollution''"]
  by (simp add: scenario_env_def)

text \<open>
  Claim C2. In every refresh cycle whose weather fetch succeeds and whose pollution
  fetch then fails, the registry after the cycle is the one the weather fetch left:
  every weather observation written in the cycle is in the registry with its value,
  no further gauge is written, and every entry of a pollution gauge has the value it
  had before the cycle.
\<close>

theorem pollution_failure_keeps_weather:
  assumes get: "httpGet env (length (requests s)) weatherURL = Inr resp"
    and ok: "StatusCode resp = 200"
    and dec: "decodeWeather env (Body resp) zero_WeatherResponse = Inr weather"
    and pol: "(\<exists>e. httpGet env (Suc (length (requests s))) pollutionURL = Inl e)
         \<or> (\<exists>presp. httpGet env (Suc (length (requests s))) pollutionURL = Inr presp
               \<and> (StatusCode presp \<noteq> 200
                  \<or> (\<exists>e. decodeAirPollution env (Body presp) zero_AirPollutionResponse = Inl e)))"
  shows "registry (updateMetrics env weatherURL pollutionURL s)
           = registry (snd (fetchWeatherData env weatherURL s))
       \<and> written s (updateMetrics env weatherURL pollutionURL s)
           = written s (snd (fetchWeatherData env weatherURL s))
       \<and> (\<forall>ob \<in> set (written s (snd (fetchWeatherData env weatherURL s))).
            registry (updateMetrics env weatherURL pollutionURL s) (series ob, labels ob)
              = Some (val ob))
       \<and> (\<forall>m lvs. isAirPollution m \<longrightarrow>
            registry (updateMetrics env weatherURL pollutionURL s) (m, lvs) = registry s (m, lvs))
       \<and> requested s (updateMetrics env weatherURL pollutionURL s) = [weatherURL, pollutionURL]
       \<and> (\<exists>err. logged (updateMetrics env weatherURL pollutionURL s)
                  = logged s @ [ErrorFetchingAirPollutionData err])"
proof -
  let ?st = "Itoa (ID weather)"
  let ?s0 = "s\<lparr>requests := requests s @ [weatherURL]\<rparr>"
  let ?s1 = "updateWeatherMetrics ?st weather ?s0"
  have f: "fetchWeatherData env weatherURL s = (Inr ?st, ?s1)"
    using get ok dec by (simp add: fetchWeatherData_ok StatusOK_def)
  have len: "length (requests ?s1) = Suc (length (requests s))" by simp
  obtain err where p: "fetchAirPollutionData env pollutionURL ?st ?s1
      = (Some err, ?s1\<lparr>requests := requests ?s1 @ [pollutionURL]\<rparr>)"
    using fetchAirPollutionData_fails [of env ?s1 pollutionURL ?st] pol
    unfolding len by blast
  have u: "updateMetrics env weatherURL pollutionURL s
      = ?s1\<lparr>requests := requests s @ [weatherURL, pollutionURL],
            logged := logged s @ [ErrorFetchingAirPollutionData err]\<rparr>"
    by (simp add: updateMetrics_weather_ok [OF f] p log_Printf_def)
  have w: "writes ?s1 = writes s @ weatherObservations ?st weather"
    by (simp add: writes_updateWeatherMetrics)
  show ?thesis
    by (simp add: u f w registry_weather_kept registry_weather_frame)
qed

theorem pollution_failure_keeps_weather_witness:
  "httpGet (scenario_env 200 503 scenario_weather) (length (requests earlier_state)) ''weather''
     = Inr \<lparr>StatusCode = 200, Body = ()\<rparr>
   \<and> httpGet (scenario_env 200 503 scenario_weather) (Suc (length (requests earlier_state))) ''air_pollution''
     = Inr \<lparr>StatusCode = 503, Body = ()\<rparr>
   \<and> decodeWeather (scenario_env 200 503 scenario_weather) () zero_WeatherResponse
     = Inr (scenario_weather zero_WeatherResponse)
   \<and> registry (updateMetrics (scenario_env 200 503 scenario_weather) ''weather'' ''air_pollution'' earlier_state)
       (owWeatherTemp, [''42'']) = Some 15.5
   \<and> registry (updateMetrics (scenario_env 200 503 scenario_weather) ''weather'' ''air_pollution'' earlier_state)
       (owAirPollutionAQI, [''42'']) = Some 2"
proof -
  let ?env = "scenario_env 200 503 scenario_weather"
  have g: "httpGet ?env (length (requests earlier_state)) ''weather'' = Inr \<lparr>StatusCode = 200, Body = ()\<rparr>"
    by (simp add: scenario_env_def)
  have d: "decodeWeather ?env (Body \<lparr>StatusCode = 200, Body = ()\<rparr>) zero_WeatherResponse
             = Inr (scenario_weather zero_WeatherResponse)"
    by (simp add: scenario_env_def)
  have p: "httpGet ?env (Suc (length (requests earlier_state))) ''air_pollution''
             = Inr \<lparr>StatusCode = 503, Body = ()\<rparr>"
    by (simp add: scenario_env_def)
  have st: "Itoa (ID (scenario_weather zero_WeatherResponse)) = ''42''"
    by (simp add: Itoa_def scenario_weather_def formatUint.simps digits_def)
  have f: "fetchWeatherData ?env ''weather'' earlier_state =
      (Inr ''42'', updateWeatherMetrics ''42'' (scenario_weather zero_WeatherResponse)
         (earlier_state\<lparr>requests := requests earlier_state @ [''weather'']\<rparr>))"
    using fetchWeatherData_ok [OF g _ d] st by (simp add: StatusOK_def)
  have t: "\<lparr>series = owWeatherTemp, labels = [''42''], val = 15.5\<rparr>
      \<in> set (written earlier_state (snd (fetchWeatherData ?env ''weather'' earlier_state)))"
    by (simp add: f writes_updateWeatherMetrics weatherObservations_def scenario_weather_def
        zero_WeatherResponse_def)
  have a: "isAirPollution owAirPollutionAQI" by (simp add: isAirPollution_def)
  have c: "StatusCode \<lparr>StatusCode = 200, Body = ()\<rparr> = (200::int)" by simp
  have q: "(\<exists>e. httpGet ?env (Suc (length (requests earlier_state))) ''air_pollution'' = Inl e)
         \<or> (\<exists>presp. httpGet ?env (Suc (length (requests earlier_state))) ''air_pollution'' = Inr presp
               \<and> (StatusCode presp \<noteq> 200
                  \<or> (\<exists>e. decodeAirPollution ?env (Body presp) zero_AirPollutionResponse = Inl e)))"
    using p by simp
  note th = pollution_failure_keeps_weather [OF g c d q]
  from th t have "registry (updateMetrics ?env ''weather'' ''air_pollution'' earlier_state)
       (series \<lparr>series = owWeatherTemp, labels = [''42''], val = 15.5\<rparr>,
        labels \<lparr>series = owWeatherTemp, labels = [''42''], val = 15.5\<rparr>)
       = Some (val \<lparr>series = owWeatherTemp, labels = [''42''], val = 15.5\<rparr>)"
    by blast
  moreover from th a have "registry (updateMetrics ?env ''weather'' ''air_pollution'' earlier_state)
       (owAirPollutionAQI, [''42'']) = registry earlier_state (owAirPollutionAQI, [''42''])"
    by blast
  ultimately show ?thesis using g p d by (simp add: earlier_state_def)
qed

subsection \<open>The conversion to \<open>float64\<close>\<close>

lemma shift53_small: "n < 2 ^ 53 \<Longrightarrow> shift53 n = 0"
  by (simp add: shift53.simps [of n])

lemma shift53_quotient: "n div 2 ^ shift53 n < 2 ^ 53"
proof (induction n rule: shift53.induct)
  case (1 n)
  show ?case
  proof (cases "n < 2 ^ 53")
    case True
    then show ?thesis by (simp add: shift53_small)
  next
    case False
    then have s: "shift53 n = Suc (shift53 (n div 2))"
      by (simp add: shift53.simps [of n])
    have "n div 2 ^ Suc (shift53 (n div 2)) = (n div 2) div 2 ^ shift53 (n div 2)"
      by (simp add: div_mult2_eq)
    with 1 False s show ?thesis by simp
  qed
qed

lemma float64_of_nat_exact: "n \<le> 2 ^ 53 \<Longrightarrow> float64_of_nat n = n"
proof (cases "n < 2 ^ 53")
  case True
  then show ?thesis by (simp add: float64_of_nat_def shift53_small)
next
  case False
  assume "n \<le> 2 ^ 53"
  with False have n: "n = 2 ^ 53" by simp
  have "shift53 (2 ^ 53) = Suc 0"
    by (simp add: shift53.simps)
  then show ?thesis by (simp add: float64_of_nat_def n Let_def)
qed

lemma float64_of_nat_representable:
  "\<exists>m \<le> 2 ^ 53. float64_of_nat n = m * 2 ^ shift53 n"
proof -
  let ?q = "n div 2 ^ shift53 n"
  have q: "?q < 2 ^ 53" by (rule shift53_quotient)
  have "float64_of_nat n = ?q * 2 ^ shift53 n \<or> float64_of_nat n = (?q + 1) * 2 ^ shift53 n"
    by (simp add: float64_of_nat_def Let_def)
  then show ?thesis
  proof
    assume "float64_of_nat n = ?q * 2 ^ shift53 n"
    moreover from q have "?q \<le> 2 ^ 53" by simp
    ultimately show ?thesis by blast
  next
    assume "float64_of_nat n = (?q + 1) * 2 ^ shift53 n"
    moreover from q have "?q + 1 \<le> 2 ^ 53" by simp
    ultimately show ?thesis by blast
  qed
qed

lemma float64_of_nat_nearest:
  "2 * \<bar>int (float64_of_nat n) - int n\<bar> \<le> 2 ^ shift53 n"
proof -
  define e where "e = shift53 n"
  define q where "q = n div 2 ^ e"
  define r where "r = n mod 2 ^ e"
  have n: "n = q * 2 ^ e + r"
    unfolding q_def r_def by (rule div_mult_mod_eq [symmetric])
  then have n': "int n = int q * 2 ^ e + int r"
    by (metis of_nat_add of_nat_mult of_nat_numeral of_nat_power)
  have r: "r < 2 ^ e" by (simp add: r_def)
  have ri: "int r < 2 ^ e"
    using r by simp
  show ?thesis
  proof (cases "2 * r > 2 ^ e \<or> (2 * r = 2 ^ e \<and> odd q)")
    case True
    then have f: "float64_of_nat n = (q + 1) * 2 ^ e"
      by (simp add: float64_of_nat_def Let_def e_def q_def r_def)
    have d: "int (float64_of_nat n) - int n = 2 ^ e - int r"
      unfolding f n' by (simp add: algebra_simps)
    from True have "2 ^ e \<le> 2 * r" by auto
    then have "int (2 ^ e) \<le> int (2 * r)" by (simp only: of_nat_le_iff)
    then have "2 ^ e \<le> 2 * int r" by simp
    with d ri show ?thesis unfolding e_def [symmetric] by simp
  next
    case False
    then have f: "float64_of_nat n = q * 2 ^ e"
      by (simp add: float64_of_nat_def Let_def e_def q_def r_def)
    have d: "int (float64_of_nat n) - int n = - int r"
      unfolding f n' by (simp add: algebra_simps)
    from False have "2 * r \<le> 2 ^ e" by auto
    then have "int (2 * r) \<le> int (2 ^ e)" by (simp only: of_nat_le_iff)
    then have "2 * int r \<le> 2 ^ e" by simp
    with d show ?thesis unfolding e_def [symmetric] by simp
  qed
qed

lemma float64_of_int_exact: "\<bar>i\<bar> \<le> 2 ^ 53 \<Longrightarrow> float64_of_int i = of_int i"
proof (cases "i < 0")
  case True
  assume "\<bar>i\<bar> \<le> 2 ^ 53"
  with True have "nat (- i) \<le> 2 ^ 53" by (simp add: nat_le_iff)
  then have "float64_of_nat (nat (- i)) = nat (- i)" by (rule float64_of_nat_exact)
  with True show ?thesis by (simp add: float64_of_int_def)
next
  case False
  assume "\<bar>i\<bar> \<le> 2 ^ 53"
  with False have "nat i \<le> 2 ^ 53" by (simp add: nat_le_iff)
  then have "float64_of_nat (nat i) = nat i" by (rule float64_of_nat_exact)
  with False show ?thesis by (simp add: float64_of_int_def)
qed

lemma float64_of_int_nearest:
  "2 * \<bar>float64_of_int i - of_int i\<bar> \<le> 2 ^ shift53 (nat \<bar>i\<bar>)"
proof -
  have *: "2 * \<bar>real (float64_of_nat n) - real n\<bar> \<le> 2 ^ shift53 n" for n
  proof -
    have "real_of_int (2 * \<bar>int (float64_of_nat n) - int n\<bar>) \<le> real_of_int (2 ^ shift53 n)"
      using float64_of_nat_nearest [of n] by (simp only: of_int_le_iff)
    then show ?thesis by simp
  qed
  show ?thesis
  proof (cases "i < 0")
    case True
    then have r: "real (nat (- i)) = - real_of_int i" and a: "nat \<bar>i\<bar> = nat (- i)"
      by simp_all
    have "\<bar>float64_of_int i - of_int i\<bar> = \<bar>real (float64_of_nat (nat (- i))) - real (nat (- i))\<bar>"
      using True unfolding r by (simp add: float64_of_int_def abs_if)
    with * [of "nat (- i)"] show ?thesis unfolding a by simp
  next
    case False
    then have r: "real (nat i) = real_of_int i" and a: "nat \<bar>i\<bar> = nat i"
      by simp_all
    have "\<bar>float64_of_int i - of_int i\<bar> = \<bar>real (float64_of_nat (nat i)) - real (nat i)\<bar>"
      using False unfolding r by (simp add: float64_of_int_def)
    with * [of "nat i"] show ?thesis unfolding a by simp
  qed
qed

lemma float64_of_int_rounds:
  "float64_of_int 9007199254740993 = 9007199254740992"
  "float64_of_int 9007199254740995 = 9007199254740996"
  "float64_of_int (- 9007199254740993) = - 9007199254740992"
  "float64_of_int 3 = 3"
  by (simp_all add: float64_of_int_def float64_of_nat_def shift53.simps Let_def)

section \<open>The mappings\<close>

text \<open>
  Claim C3. For every successfully decoded weather payload, the weather fetch writes
  exactly one observation for each of temperature, feels-like, minimum and maximum
  temperature, pressure, humidity, sea-level pressure, ground-level pressure,
  visibility, wind speed, wind direction and cloud coverage, in this order, each
  labelled by the station alone and carrying the payload's field. If the payload's
  condition list is not empty, one more observation follows: the condition gauge with
  value 1, labelled by the station and by the main and description of the first
  entry. If the list is empty, no condition observation is written. Every
  observation has as many label values as its gauge has label names, and each is in
  the registry afterwards.
\<close>

theorem weather_mapping_writes:
  assumes get: "httpGet env (length (requests s)) url = Inr resp"
    and ok: "StatusCode resp = 200"
    and dec: "decodeWeather env (Body resp) zero_WeatherResponse = Inr weather"
  shows "(let station = Itoa (ID weather) in
          written s (snd (fetchWeatherData env url s)) =
            [\<lparr>series = owWeatherTemp, labels = [station], val = Main_Temp (Main weather)\<rparr>,
             \<lparr>series = owWeatherFeelsLike, labels = [station], val = Main_FeelsLike (Main weather)\<rparr>,
             \<lparr>series = owWeatherTempMin, labels = [station], val = Main_TempMin (Main weather)\<rparr>,
             \<lparr>series = owWeatherTempMax, labels = [station], val = Main_TempMax (Main weather)\<rparr>,
             \<lparr>series = owWeatherPressure, labels = [station], val = Main_Pressure (Main weather)\<rparr>,
             \<lparr>series = owWeatherHumidity, labels = [station], val = Main_Humidity (Main weather)\<rparr>,
             \<lparr>series = owWeatherSeaLevel, labels = [station], val = Main_SeaLevel (Main weather)\<rparr>,
             \<lparr>series = owWeatherGrndLevel, labels = [station], val = Main_GrndLevel (Main weather)\<rparr>,
             \<lparr>series = owWeatherVisibility, labels = [station], val = Visibility weather\<rparr>,
             \<lparr>series = owWeatherWindSpeed, labels = [station], val = Wind_Speed (Wind weather)\<rparr>,
             \<lparr>series = owWeatherWindDeg, labels = [station], val = Wind_Deg (Wind weather)\<rparr>,
             \<lparr>series = owWeatherClouds, labels = [station], val = Clouds_All (Clouds weather)\<rparr>]
            @ (case Weather weather of
                 [] \<Rightarrow> []
               | c # _ \<Rightarrow> [\<lparr>series = owWeatherCondition,
                             labels = [station, Weather_Main c, Weather_Description c],
                             val = 1\<rparr>]))
       \<and> (\<forall>ob \<in> set (written s (snd (fetchWeatherData env url s))).
            length (labels ob) = length (labelNames (series ob))
            \<and> (series ob \<noteq> owWeatherCondition \<longrightarrow> labelNames (series ob) = [''station''])
            \<and> registry (snd (fetchWeatherData env url s)) (series ob, labels ob) = Some (val ob))
       \<and> labelNames owWeatherCondition = [''station'', ''main'', ''description'']"
proof -
  let ?st = "Itoa (ID weather)"
  let ?s0 = "s\<lparr>requests := requests s @ [url]\<rparr>"
  have f: "fetchWeatherData env url s = (Inr ?st, updateWeatherMetrics ?st weather ?s0)"
    using get ok dec by (simp add: fetchWeatherData_ok StatusOK_def)
  have w: "written s (snd (fetchWeatherData env url s)) = weatherObservations ?st weather"
    by (simp add: f writes_updateWeatherMetrics)
  have p1: "(let station = Itoa (ID weather) in
          written s (snd (fetchWeatherData env url s)) =
            [\<lparr>series = owWeatherTemp, labels = [station], val = Main_Temp (Main weather)\<rparr>,
             \<lparr>series = owWeatherFeelsLike, labels = [station], val = Main_FeelsLike (Main weather)\<rparr>,
             \<lparr>series = owWeatherTempMin, labels = [station], val = Main_TempMin (Main weather)\<rparr>,
             \<lparr>series = owWeatherTempMax, labels = [station], val = Main_TempMax (Main weather)\<rparr>,
             \<lparr>series = owWeatherPressure, labels = [station], val = Main_Pressure (Main weather)\<rparr>,
             \<lparr>series = owWeatherHumidity, labels = [station], val = Main_Humidity (Main weather)\<rparr>,
             \<lparr>series = owWeatherSeaLevel, labels = [station], val = Main_SeaLevel (Main weather)\<rparr>,
             \<lparr>series = owWeatherGrndLevel, labels = [station], val = Main_GrndLevel (Main weather)\<rparr>,
             \<lparr>series = owWeatherVisibility, labels = [station], val = Visibility weather\<rparr>,
             \<lparr>series = owWeatherWindSpeed, labels = [station], val = Wind_Speed (Wind weather)\<rparr>,
             \<lparr>series = owWeatherWindDeg, labels = [station], val = Wind_Deg (Wind weather)\<rparr>,
             \<lparr>series = owWeatherClouds, labels = [station], val = Clouds_All (Clouds weather)\<rparr>]
            @ (case Weather weather of
                 [] \<Rightarrow> []
               | c # _ \<Rightarrow> [\<lparr>series = owWeatherCondition,
                             labels = [station, Weather_Main c, Weather_Description c],
                             val = 1\<rparr>]))"
    unfolding w weatherObservations_def Let_def by (rule refl)
  have p2: "length (labels ob) = length (labelNames (series ob))
            \<and> (series ob \<noteq> owWeatherCondition \<longrightarrow> labelNames (series ob) = [''station''])
            \<and> registry (snd (fetchWeatherData env url s)) (series ob, labels ob) = Some (val ob)"
    if "ob \<in> set (weatherObservations ?st weather)" for ob
    using that weatherObservations_station [OF that] registry_weather_kept [OF that, of ?s0]
    by (simp add: f labelNames_def)
  have p3: "labelNames owWeatherCondition = [''station'', ''main'', ''description'']"
    by (simp add: labelNames_def)
  from p2 have p2': "\<forall>ob \<in> set (written s (snd (fetchWeatherData env url s))).
            length (labels ob) = length (labelNames (series ob))
            \<and> (series ob \<noteq> owWeatherCondition \<longrightarrow> labelNames (series ob) = [''station''])
            \<and> registry (snd (fetchWeatherData env url s)) (series ob, labels ob) = Some (val ob)"
    unfolding w by blast
  from p1 p2' p3 show ?thesis by (intro conjI)
qed

theorem weather_mapping_writes_witness:
  "httpGet (scenario_env 200 200 scenario_weather) (length (requests initial_state)) ''weather''
     = Inr \<lparr>StatusCode = 200, Body = ()\<rparr>
   \<and> decodeWeather (scenario_env 200 200 scenario_weather) () zero_WeatherResponse
     = Inr (scenario_weather zero_WeatherResponse)
   \<and> written initial_state (snd (fetchWeatherData (scenario_env 200 200 scenario_weather) ''weather'' initial_state))
     = [\<lparr>series = owWeatherTemp, labels = [''42''], val = 15.5\<rparr>,
        \<lparr>series = owWeatherFeelsLike, labels = [''42''], val = 0\<rparr>,
        \<lparr>series = owWeatherTempMin, labels = [''42''], val = 0\<rparr>,
        \<lparr>series = owWeatherTempMax, labels = [''42''], val = 0\<rparr>,
        \<lparr>series = owWeatherPressure, labels = [''42''], val = 0\<rparr>,
        \<lparr>series = owWeatherHumidity, labels = [''42''], val = 70\<rparr>,
        \<lparr>series = owWeatherSeaLevel, labels = [''42''], val = 0\<rparr>,
        \<lparr>series = owWeatherGrndLevel, labels = [''42''], val = 0\<rparr>,
        \<lparr>series = owWeatherVisibility, labels = [''42''], val = 0\<rparr>,
        \<lparr>series = owWeatherWindSpeed, labels = [''42''], val = 0\<rparr>,
        \<lparr>series = owWeatherWindDeg, labels = [''42''], val = 0\<rparr>,
        \<lparr>series = owWeatherClouds, labels = [''42''], val = 0\<rparr>,
        \<lparr>series = owWeatherCondition, labels = [''42'', ''Clouds'', ''overcast clouds''], val = 1\<rparr>]"
proof -
  let ?env = "scenario_env 200 200 scenario_weather"
  have g: "httpGet ?env (length (requests initial_state)) ''weather'' = Inr \<lparr>StatusCode = 200, Body = ()\<rparr>"
    by (simp add: scenario_env_def)
  have c: "StatusCode \<lparr>StatusCode = 200, Body = ()\<rparr> = (200::int)" by simp
  have d: "decodeWeather ?env (Body \<lparr>StatusCode = 200, Body = ()\<rparr>) zero_WeatherResponse
             = Inr (scenario_weather zero_WeatherResponse)"
    by (simp add: scenario_env_def)
  have st: "Itoa (ID (scenario_weather zero_WeatherResponse)) = ''42''"
    by (simp add: Itoa_def scenario_weather_def formatUint.simps digits_def)
  from weather_mapping_writes [OF g c d]
  have "written initial_state (snd (fetchWeatherData ?env ''weather'' initial_state)) =
      [\<lparr>series = owWeatherTemp, labels = [''42''], val = 15.5\<rparr>,
        \<lparr>series = owWeatherFeelsLike, labels = [''42''], val = 0\<rparr>,
        \<lparr>series = owWeatherTempMin, labels = [''42''], val = 0\<rparr>,
        \<lparr>series = owWeatherTempMax, labels = [''42''], val = 0\<rparr>,
        \<lparr>series = owWeatherPressure, labels = [''42''], val = 0\<rparr>,
        \<lparr>series = owWeatherHumidity, labels = [''42''], val = 70\<rparr>,
        \<lparr>series = owWeatherSeaLevel, labels = [''42''], val = 0\<rparr>,
        \<lparr>series = owWeatherGrndLevel, labels = [''42''], val = 0\<rparr>,
        \<lparr>series = owWeatherVisibility, labels = [''42''], val = 0\<rparr>,
        \<lparr>series = owWeatherWindSpeed, labels = [''42''], val = 0\<rparr>,
        \<lparr>series = owWeatherWindDeg, labels = [''42''], val = 0\<rparr>,
        \<lparr>series = owWeatherClouds, labels = [''42''], val = 0\<rparr>,
        \<lparr>series = owWeatherCondition, labels = [''42'', ''Clouds'', ''overcast clouds''], val = 1\<rparr>]"
    unfolding st Let_def
    by (simp add: scenario_weather_def zero_WeatherResponse_def)
  with g d show ?thesis by simp
qed

text \<open>
  Claim C4. For every successfully decoded pollution payload, the pollution fetch
  writes exactly one observation for each of AQI, CO, NO, NO2, O3, SO2, PM2.5, PM10
  and NH3, in this order, each labelled by the station alone, with the values of the
  first entry of the payload's list. The AQI value is the entry's integer index
  converted to \<open>float64\<close>: the index itself when its magnitude is at most \<open>2^53\<close>,
  and in every case a \<open>float64\<close> nearest to it. If the list is empty, nothing is
  written and the registry stays as it was. In both cases the fetch returns no error.
\<close>

theorem pollution_mapping_writes:
  assumes get: "httpGet env (length (requests s)) url = Inr resp"
    and ok: "StatusCode resp = 200"
    and dec: "decodeAirPollution env (Body resp) zero_AirPollutionResponse = Inr pollution"
  shows "written s (snd (fetchAirPollutionData env url station s)) =
           (case AirPollution_List pollution of
              [] \<Rightarrow> []
            | data # _ \<Rightarrow>
               [\<lparr>series = owAirPollutionAQI, labels = [station], val = float64_of_int (Main_AQI (List_Main data))\<rparr>,
                \<lparr>series = owAirPollutionCO, labels = [station], val = Components_CO (List_Components data)\<rparr>,
                \<lparr>series = owAirPollutionNO, labels = [station], val = Components_NO (List_Components data)\<rparr>,
                \<lparr>series = owAirPollutionNO2, labels = [station], val = Components_NO2 (List_Components data)\<rparr>,
                \<lparr>series = owAirPollutionO3, labels = [station], val = Components_O3 (List_Components data)\<rparr>,
                \<lparr>series = owAirPollutionSO2, labels = [station], val = Components_SO2 (List_Components data)\<rparr>,
                \<lparr>series = owAirPollutionPM25, labels = [station], val = Components_PM25 (List_Components data)\<rparr>,
                \<lparr>series = owAirPollutionPM10, labels = [station], val = Components_PM10 (List_Components data)\<rparr>,
                \<lparr>series = owAirPollutionNH3, labels = [station], val = Components_NH3 (List_Components data)\<rparr>])
       \<and> (\<forall>data rest. AirPollution_List pollution = data # rest \<longrightarrow>
            (\<bar>Main_AQI (List_Main data)\<bar> \<le> 2 ^ 53 \<longrightarrow>
               val (hd (written s (snd (fetchAirPollutionData env url station s))))
                 = of_int (Main_AQI (List_Main data)))
            \<and> 2 * \<bar>val (hd (written s (snd (fetchAirPollutionData env url station s))))
                       - of_int (Main_AQI (List_Main data))\<bar>
                \<le> 2 ^ shift53 (nat \<bar>Main_AQI (List_Main data)\<bar>))
       \<and> (\<forall>ob \<in> set (written s (snd (fetchAirPollutionData env url station s))).
            labelNames (series ob) = [''station'']
            \<and> registry (snd (fetchAirPollutionData env url station s)) (series ob, labels ob)
                = Some (val ob))
       \<and> (AirPollution_List pollution = [] \<longrightarrow>
            registry (snd (fetchAirPollutionData env url station s)) = registry s)
       \<and> fst (fetchAirPollutionData env url station s) = None"
proof -
  let ?s0 = "s\<lparr>requests := requests s @ [url]\<rparr>"
  have f: "fetchAirPollutionData env url station s
             = (None, updateAirPollutionMetrics station pollution ?s0)"
    using get ok dec by (simp add: fetchAirPollutionData_ok StatusOK_def)
  have w: "written s (snd (fetchAirPollutionData env url station s))
             = airPollutionObservations station pollution"
    by (simp add: f writes_updateAirPollutionMetrics)
  have p1: "written s (snd (fetchAirPollutionData env url station s)) =
           (case AirPollution_List pollution of
              [] \<Rightarrow> []
            | data # _ \<Rightarrow>
               [\<lparr>series = owAirPollutionAQI, labels = [station], val = float64_of_int (Main_AQI (List_Main data))\<rparr>,
                \<lparr>series = owAirPollutionCO, labels = [station], val = Components_CO (List_Components data)\<rparr>,
                \<lparr>series = owAirPollutionNO, labels = [station], val = Components_NO (List_Components data)\<rparr>,
                \<lparr>series = owAirPollutionNO2, labels = [station], val = Components_NO2 (List_Components data)\<rparr>,
                \<lparr>series = owAirPollutionO3, labels = [station], val = Components_O3 (List_Components data)\<rparr>,
                \<lparr>series = owAirPollutionSO2, labels = [station], val = Components_SO2 (List_Components data)\<rparr>,
                \<lparr>series = owAirPollutionPM25, labels = [station], val = Components_PM25 (List_Components data)\<rparr>,
                \<lparr>series = owAirPollutionPM10, labels = [station], val = Components_PM10 (List_Components data)\<rparr>,
                \<lparr>series = owAirPollutionNH3, labels = [station], val = Components_NH3 (List_Components data)\<rparr>])"
    unfolding w airPollutionObservations_def by (rule refl)
  have p2: "labelNames (series ob) = [''station'']
            \<and> registry (snd (fetchAirPollutionData env url station s)) (series ob, labels ob)
                = Some (val ob)"
    if "ob \<in> set (airPollutionObservations station pollution)" for ob
    using airPollutionObservations_station [OF that]
      fold_store_member [OF distinct_airPollutionObservations that, of "registry ?s0"]
    by (simp add: f registry_updateAirPollutionMetrics key_def)
  then have p2': "\<forall>ob \<in> set (written s (snd (fetchAirPollutionData env url station s))).
            labelNames (series ob) = [''station'']
            \<and> registry (snd (fetchAirPollutionData env url station s)) (series ob, labels ob)
                = Some (val ob)"
    unfolding w by blast
  have p3: "AirPollution_List pollution = [] \<longrightarrow>
            registry (snd (fetchAirPollutionData env url station s)) = registry s"
    by (simp add: f updateAirPollutionMetrics_def)
  have p4: "fst (fetchAirPollutionData env url station s) = None"
    by (simp add: f)
  have p5: "\<forall>data rest. AirPollution_List pollution = data # rest \<longrightarrow>
            (\<bar>Main_AQI (List_Main data)\<bar> \<le> 2 ^ 53 \<longrightarrow>
               val (hd (written s (snd (fetchAirPollutionData env url station s))))
                 = of_int (Main_AQI (List_Main data)))
            \<and> 2 * \<bar>val (hd (written s (snd (fetchAirPollutionData env url station s))))
                       - of_int (Main_AQI (List_Main data))\<bar>
                \<le> 2 ^ shift53 (nat \<bar>Main_AQI (List_Main data)\<bar>)"
  proof (intro allI impI)
    fix data rest
    assume "AirPollution_List pollution = data # rest"
    then have v: "val (hd (written s (snd (fetchAirPollutionData env url station s))))
                    = float64_of_int (Main_AQI (List_Main data))"
      unfolding w by (simp add: airPollutionObservations_def)
    show "(\<bar>Main_AQI (List_Main data)\<bar> \<le> 2 ^ 53 \<longrightarrow>
               val (hd (written s (snd (fetchAirPollutionData env url station s))))
                 = of_int (Main_AQI (List_Main data)))
            \<and> 2 * \<bar>val (hd (written s (snd (fetchAirPollutionData env url station s))))
                       - of_int (Main_AQI (List_Main data))\<bar>
                \<le> 2 ^ shift53 (nat \<bar>Main_AQI (List_Main data)\<bar>)"
      unfolding v using float64_of_int_nearest [of "Main_AQI (List_Main data)"]
      by (simp add: float64_of_int_exact)
  qed
  from p1 p5 p2' p3 p4 show ?thesis by (intro conjI)
qed

theorem pollution_mapping_writes_witness:
  "httpGet (scenario_env 200 200 scenario_weather) (length (requests initial_state)) ''air_pollution''
     = Inr \<lparr>StatusCode = 200, Body = ()\<rparr>
   \<and> decodeAirPollution (scenario_env 200 200 scenario_weather) () zero_AirPollutionResponse
     = Inr (scenario_pollution zero_AirPollutionResponse)
   \<and> written initial_state
       (snd (fetchAirPollutionData (scenario_env 200 200 scenario_weather) ''air_pollution'' ''42'' initial_state))
     = [\<lparr>series = owAirPollutionAQI, labels = [''42''], val = 3\<rparr>,
        \<lparr>series = owAirPollutionCO, labels = [''42''], val = 201.5\<rparr>,
        \<lparr>series = owAirPollutionNO, labels = [''42''], val = 0\<rparr>,
        \<lparr>series = owAirPollutionNO2, labels = [''42''], val = 0\<rparr>,
        \<lparr>series = owAirPollutionO3, labels = [''42''], val = 0\<rparr>,
        \<lparr>series = owAirPollutionSO2, labels = [''42''], val = 0\<rparr>,
        \<lparr>series = owAirPollutionPM25, labels = [''42''], val = 8.75\<rparr>,
        \<lparr>series = owAirPollutionPM10, labels = [''42''], val = 0\<rparr>,
        \<lparr>series = owAirPollutionNH3, labels = [''42''], val = 0\<rparr>]
   \<and> decodeAirPollution
        ((scenario_env 200 200 scenario_weather)
           \<lparr>decodeAirPollution := \<lambda>b p. Inr (scenario_pollution_large p)\<rparr>)
        () zero_AirPollutionResponse
     = Inr (scenario_pollution_large zero_AirPollutionResponse)
   \<and> Main_AQI (List_Main (hd (AirPollution_List (scenario_pollution_large zero_AirPollutionResponse))))
     = 9007199254740993
   \<and> hd (written initial_state
       (snd (fetchAirPollutionData
          ((scenario_env 200 200 scenario_weather)
             \<lparr>decodeAirPollution := \<lambda>b p. Inr (scenario_pollution_large p)\<rparr>)
          ''air_pollution'' ''42'' initial_state)))
     = \<lparr>series = owAirPollutionAQI, labels = [''42''], val = 9007199254740992\<rparr>"
proof -
  let ?env = "scenario_env 200 200 scenario_weather"
  let ?large = "?env\<lparr>decodeAirPollution := \<lambda>b p. Inr (scenario_pollution_large p)\<rparr>"
  have g: "httpGet ?env (length (requests initial_state)) ''air_pollution''
             = Inr \<lparr>StatusCode = 200, Body = ()\<rparr>"
    by (simp add: scenario_env_def)
  have g': "httpGet ?large (length (requests initial_state)) ''air_pollution''
             = Inr \<lparr>StatusCode = 200, Body = ()\<rparr>"
    by (simp add: scenario_env_def)
  have c: "StatusCode \<lparr>StatusCode = 200, Body = ()\<rparr> = (200::int)" by simp
  have d: "decodeAirPollution ?env (Body \<lparr>StatusCode = 200, Body = ()\<rparr>) zero_AirPollutionResponse
             = Inr (scenario_pollution zero_AirPollutionResponse)"
    by (simp add: scenario_env_def)
  have d': "decodeAirPollution ?large (Body \<lparr>StatusCode = 200, Body = ()\<rparr>) zero_AirPollutionResponse
             = Inr (scenario_pollution_large zero_AirPollutionResponse)"
    by simp
  have 1: "written initial_state (snd (fetchAirPollutionData ?env ''air_pollution'' ''42'' initial_state))
     = [\<lparr>series = owAirPollutionAQI, labels = [''42''], val = 3\<rparr>,
        \<lparr>series = owAirPollutionCO, labels = [''42''], val = 201.5\<rparr>,
        \<lparr>series = owAirPollutionNO, labels = [''42''], val = 0\<rparr>,
        \<lparr>series = owAirPollutionNO2, labels = [''42''], val = 0\<rparr>,
        \<lparr>series = owAirPollutionO3, labels = [''42''], val = 0\<rparr>,
        \<lparr>series = owAirPollutionSO2, labels = [''42''], val = 0\<rparr>,
        \<lparr>series = owAirPollutionPM25, labels = [''42''], val = 8.75\<rparr>,
        \<lparr>series = owAirPollutionPM10, labels = [''42''], val = 0\<rparr>,
        \<lparr>series = owAirPollutionNH3, labels = [''42''], val = 0\<rparr>]"
    using pollution_mapping_writes [OF g c d, of "''42''"]
    by (simp add: scenario_pollution_def zero_AirPollutionResponse_def float64_of_int_rounds)
  have 2: "hd (written initial_state (snd (fetchAirPollutionData ?large ''air_pollution'' ''42'' initial_state)))
     = \<lparr>series = owAirPollutionAQI, labels = [''42''], val = 9007199254740992\<rparr>"
    using pollution_mapping_writes [OF g' c d', of "''42''"]
    by (simp add: scenario_pollution_large_def zero_AirPollutionResponse_def float64_of_int_rounds)
  have 3: "Main_AQI (List_Main (hd (AirPollution_List (scenario_pollution_large zero_AirPollutionResponse))))
     = 9007199254740993"
    by (simp add: scenario_pollution_large_def)
  from g d d' 1 2 3 show ?thesis by simp
qed

section \<open>The fetches\<close>

text \<open>
  Claim C5 says that a fetch fails with a status error exactly when the status is
  outside the 2xx range, and that every 2xx response is decoded. The source compares
  the status with \<open>http.StatusOK\<close>: a response with status 204 is in the 2xx range and
  still ends in a status error, for either fetch.
\<close>

theorem status_error_2xx_counterexample:
  "(200::int) \<le> 204 \<and> (204::int) < 300
   \<and> fst (fetchWeatherData (scenario_env 204 200 scenario_weather) ''weather'' initial_state)
       = Inl (WeatherStatusCode 204)
   \<and> fst (fetchAirPollutionData (scenario_env 200 204 scenario_weather) ''air_pollution'' ''42'' initial_state)
       = Some (AirPollutionStatusCode 204)"
  by (simp add: fetchWeatherData_def fetchAirPollutionData_def http_Get_def scenario_env_def StatusOK_def)

text \<open>
  Claim C5, amended. A fetch (weather or pollution) fails with a status error
  carrying the received status code exactly when a response was received and its
  status is not 200; every response with status 200 proceeds to body decoding, and
  the outcome of the fetch is then the outcome of the decoder.
\<close>

theorem status_error_iff_not_OK:
  "(fst (fetchWeatherData env url s) = Inl (WeatherStatusCode code)
      \<longleftrightarrow> (\<exists>resp. httpGet env (length (requests s)) url = Inr resp
                  \<and> StatusCode resp = code \<and> code \<noteq> 200))
   \<and> (fst (fetchAirPollutionData env url station s) = Some (AirPollutionStatusCode code)
      \<longleftrightarrow> (\<exists>resp. httpGet env (length (requests s)) url = Inr resp
                  \<and> StatusCode resp = code \<and> code \<noteq> 200))
   \<and> (\<forall>resp. httpGet env (length (requests s)) url = Inr resp \<and> StatusCode resp = 200 \<longrightarrow>
         fst (fetchWeatherData env url s) =
           (case decodeWeather env (Body resp) zero_WeatherResponse of
              Inl e \<Rightarrow> Inl (FailedToDecodeWeather e)
            | Inr weather \<Rightarrow> Inr (Itoa (ID weather)))
         \<and> fst (fetchAirPollutionData env url station s) =
           (case decodeAirPollution env (Body resp) zero_AirPollutionResponse of
              Inl e \<Rightarrow> Some (FailedToDecodeAirPollution e)
            | Inr pollution \<Rightarrow> None))"
proof (intro conjI)
  show "fst (fetchWeatherData env url s) = Inl (WeatherStatusCode code)
      \<longleftrightarrow> (\<exists>resp. httpGet env (length (requests s)) url = Inr resp
                  \<and> StatusCode resp = code \<and> code \<noteq> 200)"
    by (auto simp: fetchWeatherData_def http_Get_def StatusOK_def Let_def split: sum.splits)
  show "fst (fetchAirPollutionData env url station s) = Some (AirPollutionStatusCode code)
      \<longleftrightarrow> (\<exists>resp. httpGet env (length (requests s)) url = Inr resp
                  \<and> StatusCode resp = code \<and> code \<noteq> 200)"
    by (auto simp: fetchAirPollutionData_def http_Get_def StatusOK_def split: sum.splits)
  show "\<forall>resp. httpGet env (length (requests s)) url = Inr resp \<and> StatusCode resp = 200 \<longrightarrow>
         fst (fetchWeatherData env url s) =
           (case decodeWeather env (Body resp) zero_WeatherResponse of
              Inl e \<Rightarrow> Inl (FailedToDecodeWeather e)
            | Inr weather \<Rightarrow> Inr (Itoa (ID weather)))
         \<and> fst (fetchAirPollutionData env url station s) =
           (case decodeAirPollution env (Body resp) zero_AirPollutionResponse of
              Inl e \<Rightarrow> Some (FailedToDecodeAirPollution e)
            | Inr pollution \<Rightarrow> None)"
    by (auto simp: fetchWeatherData_def fetchAirPollutionData_def http_Get_def StatusOK_def Let_def
          split: sum.splits)
qed

theorem status_error_iff_not_OK_witness:
  "fst (fetchWeatherData (scenario_env 401 200 scenario_weather) ''weather'' initial_state)
     = Inl (WeatherStatusCode 401)
   \<and> httpGet (scenario_env 200 200 scenario_weather) (length (requests initial_state)) ''weather''
     = Inr \<lparr>StatusCode = 200, Body = ()\<rparr>
   \<and> fst (fetchWeatherData (scenario_env 200 200 scenario_weather) ''weather'' initial_state)
     = Inr ''42''"
proof -
  let ?bad = "scenario_env 401 200 scenario_weather"
  let ?good = "scenario_env 200 200 scenario_weather"
  have b: "\<exists>resp. httpGet ?bad (length (requests initial_state)) ''weather'' = Inr resp
                  \<and> StatusCode resp = 401 \<and> (401::int) \<noteq> 200"
    by (simp add: scenario_env_def)
  have g: "httpGet ?good (length (requests initial_state)) ''weather''
             = Inr \<lparr>StatusCode = 200, Body = ()\<rparr>
           \<and> StatusCode \<lparr>StatusCode = 200, Body = ()\<rparr> = (200::int)"
    by (simp add: scenario_env_def)
  have st: "Itoa (ID (scenario_weather zero_WeatherResponse)) = ''42''"
    by (simp add: Itoa_def scenario_weather_def formatUint.simps digits_def)
  from status_error_iff_not_OK [of ?bad "''weather''" initial_state 401] b
  have 1: "fst (fetchWeatherData ?bad ''weather'' initial_state) = Inl (WeatherStatusCode 401)"
    by blast
  from status_error_iff_not_OK [of ?good "''weather''" initial_state 0 "''42''"] g
  have "fst (fetchWeatherData ?good ''weather'' initial_state) =
           (case decodeWeather ?good (Body \<lparr>StatusCode = 200, Body = ()\<rparr>) zero_WeatherResponse of
              Inl e \<Rightarrow> Inl (FailedToDecodeWeather e)
            | Inr weather \<Rightarrow> Inr (Itoa (ID weather)))"
    by blast
  then have 2: "fst (fetchWeatherData ?good ''weather'' initial_state) = Inr ''42''"
    by (simp add: scenario_env_def st)
  from 1 2 g show ?thesis by simp
qed

text \<open>
  Claim C6 says that a fetch does not write to the metric registry. In the source
  the fetch functions decode and write in one body: after a successful weather fetch
  the temperature gauge of the station holds the payload's value where there was
  none before, and so does the AQI gauge after a successful pollution fetch.
\<close>

theorem fetch_writes_registry_counterexample:
  "registry (snd (fetchWeatherData (scenario_env 200 200 scenario_weather) ''weather'' initial_state))
     (owWeatherTemp, [''42'']) = Some 15.5
   \<and> registry initial_state (owWeatherTemp, [''42'']) = None
   \<and> registry (snd (fetchAirPollutionData (scenario_env 200 200 scenario_weather) ''air_pollution'' ''42''
        initial_state)) (owAirPollutionAQI, [''42'']) = Some 3
   \<and> registry initial_state (owAirPollutionAQI, [''42'']) = None"
  by (simp add: fetchWeatherData_def fetchAirPollutionData_def http_Get_def scenario_env_def
      StatusOK_def Let_def updateWeatherMetrics_def updateAirPollutionMetrics_def
      scenario_weather_def scenario_pollution_def zero_WeatherResponse_def
      zero_AirPollutionResponse_def initial_state_def Itoa_def formatUint.simps digits_def
      float64_of_int_rounds)

text \<open>
  Claim C6, amended. The effects of a fetch function are one recorded HTTP request
  and, only when a response was received, its status is 200 and its body decodes,
  the gauge writes of the decoded payload. On every error path the state is the one
  before the fetch with the request recorded, so the request and the decoding do not
  touch the registry; a fetch never logs.
\<close>

theorem fetch_effects:
  "(case fst (fetchWeatherData env url s) of
      Inl err \<Rightarrow> snd (fetchWeatherData env url s) = s\<lparr>requests := requests s @ [url]\<rparr>
    | Inr station \<Rightarrow>
        (\<exists>resp weather.
           httpGet env (length (requests s)) url = Inr resp
           \<and> StatusCode resp = 200
           \<and> decodeWeather env (Body resp) zero_WeatherResponse = Inr weather
           \<and> snd (fetchWeatherData env url s)
               = updateWeatherMetrics station weather (s\<lparr>requests := requests s @ [url]\<rparr>)))
   \<and> (case fst (fetchAirPollutionData env url station' s) of
        Some err \<Rightarrow> snd (fetchAirPollutionData env url station' s) = s\<lparr>requests := requests s @ [url]\<rparr>
      | None \<Rightarrow>
          (\<exists>resp pollution.
             httpGet env (length (requests s)) url = Inr resp
             \<and> StatusCode resp = 200
             \<and> decodeAirPollution env (Body resp) zero_AirPollutionResponse = Inr pollution
             \<and> snd (fetchAirPollutionData env url station' s)
                 = updateAirPollutionMetrics station' pollution (s\<lparr>requests := requests s @ [url]\<rparr>)))
   \<and> logged (snd (fetchWeatherData env url s)) = logged s
   \<and> logged (snd (fetchAirPollutionData env url station' s)) = logged s
   \<and> requested s (snd (fetchWeatherData env url s)) = [url]
   \<and> requested s (snd (fetchAirPollutionData env url station' s)) = [url]"
proof (intro conjI)
  show "case fst (fetchWeatherData env url s) of
      Inl err \<Rightarrow> snd (fetchWeatherData env url s) = s\<lparr>requests := requests s @ [url]\<rparr>
    | Inr station \<Rightarrow>
        (\<exists>resp weather.
           httpGet env (length (requests s)) url = Inr resp
           \<and> StatusCode resp = 200
           \<and> decodeWeather env (Body resp) zero_WeatherResponse = Inr weather
           \<and> snd (fetchWeatherData env url s)
               = updateWeatherMetrics station weather (s\<lparr>requests := requests s @ [url]\<rparr>))"
    by (cases rule: fetchWeatherData_paths [of env s url])
       (simp_all add: fetchWeatherData_transport fetchWeatherData_status fetchWeatherData_decode
          fetchWeatherData_ok StatusOK_def)
  show "case fst (fetchAirPollutionData env url station' s) of
        Some err \<Rightarrow> snd (fetchAirPollutionData env url station' s) = s\<lparr>requests := requests s @ [url]\<rparr>
      | None \<Rightarrow>
          (\<exists>resp pollution.
             httpGet env (length (requests s)) url = Inr resp
             \<and> StatusCode resp = 200
             \<and> decodeAirPollution env (Body resp) zero_AirPollutionResponse = Inr pollution
             \<and> snd (fetchAirPollutionData env url station' s)
                 = updateAirPollutionMetrics station' pollution (s\<lparr>requests := requests s @ [url]\<rparr>))"
    by (auto simp: fetchAirPollutionData_def http_Get_def StatusOK_def split: sum.splits)
  show "logged (snd (fetchWeatherData env url s)) = logged s"
    by (cases rule: fetchWeatherData_paths [of env s url])
       (simp_all add: fetchWeatherData_transport fetchWeatherData_status fetchWeatherData_decode
          fetchWeatherData_ok)
  show "logged (snd (fetchAirPollutionData env url station' s)) = logged s"
    by (auto simp: fetchAirPollutionData_def http_Get_def split: sum.splits)
  show "requested s (snd (fetchWeatherData env url s)) = [url]"
    by (cases rule: fetchWeatherData_paths [of env s url])
       (simp_all add: fetchWeatherData_transport fetchWeatherData_status fetchWeatherData_decode
          fetchWeatherData_ok)
  show "requested s (snd (fetchAirPollutionData env url station' s)) = [url]"
    by (auto simp: fetchAirPollutionData_def http_Get_def split: sum.splits)
qed

text \<open>
  Claim C9. A fetch (weather or pollution) that ends in an error performs no registry
  write at all: the registry is exactly as it was and the write log has not grown.
  Decoding completes before the first gauge write: whenever a fetch has written
  anything, a response was received and its body was decoded successfully.
\<close>

theorem fetch_error_is_atomic:
  "(fst (fetchWeatherData env url s) = Inl err \<longrightarrow>
      registry (snd (fetchWeatherData env url s)) = registry s
      \<and> written s (snd (fetchWeatherData env url s)) = [])
   \<and> (fst (fetchAirPollutionData env url station s) = Some err \<longrightarrow>
      registry (snd (fetchAirPollutionData env url station s)) = registry s
      \<and> written s (snd (fetchAirPollutionData env url station s)) = [])
   \<and> (written s (snd (fetchWeatherData env url s)) \<noteq> [] \<longrightarrow>
      (\<exists>resp weather. httpGet env (length (requests s)) url = Inr resp
         \<and> decodeWeather env (Body resp) zero_WeatherResponse = Inr weather))
   \<and> (written s (snd (fetchAirPollutionData env url station s)) \<noteq> [] \<longrightarrow>
      (\<exists>resp pollution. httpGet env (length (requests s)) url = Inr resp
         \<and> decodeAirPollution env (Body resp) zero_AirPollutionResponse = Inr pollution))"
proof (intro conjI impI)
  assume e: "fst (fetchWeatherData env url s) = Inl err"
  show "registry (snd (fetchWeatherData env url s)) = registry s"
    by (simp add: fetchWeatherData_error_state [OF e])
  show "written s (snd (fetchWeatherData env url s)) = []"
    by (simp add: fetchWeatherData_error_state [OF e])
next
  assume e: "fst (fetchAirPollutionData env url station s) = Some err"
  show "registry (snd (fetchAirPollutionData env url station s)) = registry s"
    by (simp add: fetchAirPollutionData_error_state [OF e])
  show "written s (snd (fetchAirPollutionData env url station s)) = []"
    by (simp add: fetchAirPollutionData_error_state [OF e])
next
  assume w: "written s (snd (fetchWeatherData env url s)) \<noteq> []"
  show "\<exists>resp weather. httpGet env (length (requests s)) url = Inr resp
         \<and> decodeWeather env (Body resp) zero_WeatherResponse = Inr weather"
    using w
    by (cases rule: fetchWeatherData_paths [of env s url])
       (simp_all add: fetchWeatherData_transport fetchWeatherData_status fetchWeatherData_decode)
next
  assume w: "written s (snd (fetchAirPollutionData env url station s)) \<noteq> []"
  then show "\<exists>resp pollution. httpGet env (length (requests s)) url = Inr resp
         \<and> decodeAirPollution env (Body resp) zero_AirPollutionResponse = Inr pollution"
    by (auto simp: fetchAirPollutionData_def http_Get_def split: sum.splits if_splits)
qed

theorem fetch_error_is_atomic_witness:
  "fst (fetchWeatherData (scenario_env 401 503 scenario_weather) ''weather'' earlier_state)
     = Inl (WeatherStatusCode 401)
   \<and> registry (snd (fetchWeatherData (scenario_env 401 503 scenario_weather) ''weather'' earlier_state))
     = registry earlier_state
   \<and> fst (fetchAirPollutionData (scenario_env 401 503 scenario_weather) ''air_pollution'' ''42'' earlier_state)
     = Some (AirPollutionStatusCode 503)
   \<and> registry (snd (fetchAirPollutionData (scenario_env 401 503 scenario_weather) ''air_pollution'' ''42''
        earlier_state))
     = registry earlier_state"
proof -
  let ?env = "scenario_env 401 503 scenario_weather"
  have w: "fst (fetchWeatherData ?env ''weather'' earlier_state) = Inl (WeatherStatusCode 401)"
    by (simp add: fetchWeatherData_def http_Get_def scenario_env_def StatusOK_def)
  have p: "fst (fetchAirPollutionData ?env ''air_pollution'' ''42'' earlier_state)
             = Some (AirPollutionStatusCode 503)"
    by (simp add: fetchAirPollutionData_def http_Get_def scenario_env_def StatusOK_def)
  from fetch_error_is_atomic [of ?env "''weather''" earlier_state "WeatherStatusCode 401" "''42''"] w
  have 1: "registry (snd (fetchWeatherData ?env ''weather'' earlier_state)) = registry earlier_state"
    by blast
  from fetch_error_is_atomic [of ?env "''air_pollution''" earlier_state "AirPollutionStatusCode 503" "''42''"] p
  have 2: "registry (snd (fetchAirPollutionData ?env ''air_pollution'' ''42'' earlier_state))
             = registry earlier_state"
    by blast
  from w p 1 2 show ?thesis by (intro conjI)
qed

section \<open>Determinism and overwriting\<close>

lemma fold_store_overwrites:
  "k \<in> key ` set obs \<Longrightarrow> fold store obs r k = fold store obs r' k"
proof (induction obs arbitrary: r r')
  case Nil
  then show ?case by simp
next
  case (Cons a obs)
  show ?case
  proof (cases "k \<in> key ` set obs")
    case True
    then show ?thesis by (simp add: Cons.IH)
  next
    case False
    with Cons.prems have k: "k = key a" by simp
    from False have "fold store obs (store a r) k = store a r k"
      and "fold store obs (store a r') k = store a r' k"
      by (simp_all add: fold_store_other)
    moreover have "store a r k = store a r' k"
      by (simp add: k store_def key_def)
    ultimately show ?thesis by simp
  qed
qed

lemma fold_store_idem: "fold store obs (fold store obs r) = fold store obs r"
proof
  fix k
  show "fold store obs (fold store obs r) k = fold store obs r k"
  proof (cases "k \<in> key ` set obs")
    case True
    then show ?thesis by (rule fold_store_overwrites)
  next
    case False
    then show ?thesis by (simp add: fold_store_other)
  qed
qed

text \<open>
  Claim C7. The weather mapping and the pollution mapping are deterministic and
  stateless: the list of observations written for a payload is the same from every
  state, so it does not depend on the registry, on the earlier writes, on the requests
  or on the log, and invoking a mapping a second time on the same payload writes the
  same observations in the same order and leaves the registry as the first invocation
  left it.
\<close>

theorem mapping_deterministic:
  "written s (updateWeatherMetrics station weather s)
     = written s' (updateWeatherMetrics station weather s')
   \<and> written s (updateAirPollutionMetrics station pollution s)
     = written s' (updateAirPollutionMetrics station pollution s')
   \<and> written (updateWeatherMetrics station weather s)
       (updateWeatherMetrics station weather (updateWeatherMetrics station weather s))
     = written s (updateWeatherMetrics station weather s)
   \<and> written (updateAirPollutionMetrics station pollution s)
       (updateAirPollutionMetrics station pollution (updateAirPollutionMetrics station pollution s))
     = written s (updateAirPollutionMetrics station pollution s)
   \<and> registry (updateWeatherMetrics station weather (updateWeatherMetrics station weather s))
     = registry (updateWeatherMetrics station weather s)
   \<and> registry (updateAirPollutionMetrics station pollution (updateAirPollutionMetrics station pollution s))
     = registry (updateAirPollutionMetrics station pollution s)"
  by (simp add: writes_updateWeatherMetrics writes_updateAirPollutionMetrics
      registry_updateWeatherMetrics registry_updateAirPollutionMetrics fold_store_idem)

text \<open>
  Claim C8. For every gauge and label values, writing \<open>v1\<close> and then \<open>v2\<close> to that
  key leaves the snapshot showing \<open>v2\<close> for the key, and the snapshot is the one
  obtained had \<open>v1\<close> never been written: no history is kept.
\<close>

theorem last_write_wins:
  "snapshot (WithLabelValues_Set m lvs v2 (WithLabelValues_Set m lvs v1 s)) (m, lvs) = Some v2
   \<and> snapshot (WithLabelValues_Set m lvs v2 (WithLabelValues_Set m lvs v1 s))
     = snapshot (WithLabelValues_Set m lvs v2 s)"
  by (simp add: snapshot_def)

section \<open>The station label\<close>

lemma digit_value_digits: "n < 10 \<Longrightarrow> digit_value (digits ! n) = n"
proof -
  assume "n < 10"
  then have "n \<in> {0, 1, 2, 3, 4, 5, 6, 7, 8, 9}" by auto
  then show ?thesis
    by (auto simp: digits_def digit_value_def)
qed

lemma digits_not_minus: "n < 10 \<Longrightarrow> digits ! n \<noteq> CHR ''-''"
proof -
  assume "n < 10"
  then have "n \<in> {0, 1, 2, 3, 4, 5, 6, 7, 8, 9}" by auto
  then show ?thesis
    by (auto simp: digits_def)
qed

lemma decimal_nat_snoc: "decimal_nat (ds @ [c]) = 10 * decimal_nat ds + digit_value c"
  by (simp add: decimal_nat_def)

lemma decimal_nat_formatUint: "decimal_nat (formatUint n) = n"
proof (induction n rule: formatUint.induct)
  case (1 n)
  show ?case
  proof (cases "n < 10")
    case True
    then show ?thesis
      by (simp add: formatUint.simps [of n] decimal_nat_def digit_value_digits)
  next
    case False
    with 1 have "decimal_nat (formatUint (n div 10)) = n div 10" by simp
    with False show ?thesis
      by (simp add: formatUint.simps [of n] decimal_nat_snoc digit_value_digits)
  qed
qed

lemma formatUint_not_Nil: "formatUint n \<noteq> []"
  by (simp add: formatUint.simps [of n])

lemma hd_formatUint: "hd (formatUint n) \<noteq> CHR ''-''"
proof (induction n rule: formatUint.induct)
  case (1 n)
  show ?case
  proof (cases "n < 10")
    case True
    then show ?thesis by (simp add: formatUint.simps [of n] digits_not_minus)
  next
    case False
    with 1 have "hd (formatUint (n div 10)) \<noteq> CHR ''-''" by simp
    with False show ?thesis
      by (simp add: formatUint.simps [of n] formatUint_not_Nil)
  qed
qed

lemma decimal_int_Itoa: "decimal_int (Itoa i) = i"
proof (cases "i < 0")
  case True
  then show ?thesis by (simp add: Itoa_def decimal_int_def decimal_nat_formatUint)
next
  case False
  obtain c ds where f: "formatUint (nat i) = c # ds"
    using formatUint_not_Nil [of "nat i"] by (cases "formatUint (nat i)") auto
  with hd_formatUint [of "nat i"] have "c \<noteq> CHR ''-''" by simp
  moreover have "decimal_nat (c # ds) = nat i"
    using decimal_nat_formatUint [of "nat i"] f by simp
  ultimately show ?thesis using False f by (simp add: Itoa_def decimal_int_def)
qed

lemma Itoa_zero: "Itoa 0 = ''0''"
  by (simp add: Itoa_def formatUint.simps digits_def)

lemma Itoa_examples: "Itoa 42 = ''42''" "Itoa (- 7) = ''-7''" "Itoa 5128581 = ''5128581''"
  by (simp_all add: Itoa_def formatUint.simps digits_def)

lemma fetchAirPollutionData_writes:
  "\<exists>obs. writes (snd (fetchAirPollutionData env url station s)) = writes s @ obs
         \<and> (\<forall>ob \<in> set obs. labels ob = [station] \<and> labelNames (series ob) = [''station''])"
proof (cases "fst (fetchAirPollutionData env url station s)")
  case (Some err)
  then show ?thesis by (simp add: fetchAirPollutionData_error_state)
next
  case None
  then obtain pollution where
    "snd (fetchAirPollutionData env url station s)
       = updateAirPollutionMetrics station pollution (s\<lparr>requests := requests s @ [url]\<rparr>)"
    by (auto simp: fetchAirPollutionData_def http_Get_def split: sum.splits if_splits)
  then show ?thesis
    using airPollutionObservations_station [of _ station pollution]
    by (auto simp: writes_updateAirPollutionMetrics)
qed

lemma fetchAirPollutionData_requests:
  "requests (snd (fetchAirPollutionData env url station s)) = requests s @ [url]"
  by (auto simp: fetchAirPollutionData_def http_Get_def split: sum.splits)

lemma updateMetrics_weather_ok_fields:
  assumes "fetchWeatherData env weatherURL s = (Inr station, s1)"
  shows "writes (updateMetrics env weatherURL pollutionURL s)
           = writes (snd (fetchAirPollutionData env pollutionURL station s1))"
    and "requests (updateMetrics env weatherURL pollutionURL s) = requests s1 @ [pollutionURL]"
  by (simp_all add: updateMetrics_weather_ok [OF assms] log_Printf_def
        fetchAirPollutionData_requests split: option.splits)

text \<open>
  Claim C10. In every cycle with a successfully decoded weather payload, the weather
  fetch returns \<open>strconv.Itoa\<close> of the payload's top-level \<open>ID\<close>, the decimal string
  that denotes it, and every observation written in the cycle, by the weather fetch
  and by the pollution fetch alike, carries this string as its first label value,
  under the label name \<open>station\<close>. The decoding target starts with \<open>ID = 0\<close>; when
  the decoder leaves the field as it was, which is what it does for a body without
  \<open>id\<close>, the station is \<open>0\<close>. In every such cycle, with that station too, the
  weather observations are written and the pollution fetch is requested.
\<close>

theorem station_label_is_id:
  assumes get: "httpGet env (length (requests s)) weatherURL = Inr resp"
    and ok: "StatusCode resp = 200"
    and dec: "decodeWeather env (Body resp) zero_WeatherResponse = Inr weather"
  shows "fst (fetchWeatherData env weatherURL s) = Inr (Itoa (ID weather))
       \<and> decimal_int (Itoa (ID weather)) = ID weather
       \<and> (\<forall>ob \<in> set (written s (updateMetrics env weatherURL pollutionURL s)).
            labels ob \<noteq> [] \<and> hd (labels ob) = Itoa (ID weather)
            \<and> hd (labelNames (series ob)) = ''station'')
       \<and> take (length (weatherObservations (Itoa (ID weather)) weather))
              (written s (updateMetrics env weatherURL pollutionURL s))
           = weatherObservations (Itoa (ID weather)) weather
       \<and> requested s (updateMetrics env weatherURL pollutionURL s) = [weatherURL, pollutionURL]
       \<and> ID zero_WeatherResponse = 0
       \<and> (ID weather = ID zero_WeatherResponse \<longrightarrow> Itoa (ID weather) = ''0'')"
proof -
  let ?st = "Itoa (ID weather)"
  let ?s0 = "s\<lparr>requests := requests s @ [weatherURL]\<rparr>"
  let ?s1 = "updateWeatherMetrics ?st weather ?s0"
  let ?s' = "updateMetrics env weatherURL pollutionURL s"
  have f: "fetchWeatherData env weatherURL s = (Inr ?st, ?s1)"
    using get ok dec by (simp add: fetchWeatherData_ok StatusOK_def)
  obtain obs where
    p: "writes (snd (fetchAirPollutionData env pollutionURL ?st ?s1)) = writes ?s1 @ obs"
    and l: "\<forall>ob \<in> set obs. labels ob = [?st] \<and> labelNames (series ob) = [''station'']"
    using fetchAirPollutionData_writes [of env pollutionURL ?st ?s1] by blast
  have w: "written s ?s' = weatherObservations ?st weather @ obs"
    by (simp add: updateMetrics_weather_ok_fields(1) [OF f] p writes_updateWeatherMetrics)
  have 1: "fst (fetchWeatherData env weatherURL s) = Inr ?st"
    by (simp add: f)
  have 2: "decimal_int ?st = ID weather"
    by (rule decimal_int_Itoa)
  have "labels ob \<noteq> [] \<and> hd (labels ob) = ?st \<and> hd (labelNames (series ob)) = ''station''"
    if "ob \<in> set (weatherObservations ?st weather)" for ob
    using weatherObservations_station [OF that] by (simp add: labelNames_def)
  with l have 3: "\<forall>ob \<in> set (written s ?s').
            labels ob \<noteq> [] \<and> hd (labels ob) = ?st \<and> hd (labelNames (series ob)) = ''station''"
    unfolding w by auto
  have 4: "take (length (weatherObservations ?st weather)) (written s ?s')
             = weatherObservations ?st weather"
    unfolding w by simp
  have 5: "requested s ?s' = [weatherURL, pollutionURL]"
    by (simp add: updateMetrics_weather_ok_fields(2) [OF f])
  have 6: "ID zero_WeatherResponse = 0"
    by (simp add: zero_WeatherResponse_def)
  have 7: "ID weather = ID zero_WeatherResponse \<longrightarrow> ?st = ''0''"
    by (simp add: 6 Itoa_zero)
  from 1 2 3 4 5 6 7 show ?thesis by (intro conjI)
qed

theorem station_label_is_id_witness:
  "httpGet (scenario_env 200 200 scenario_weather_without_id) (length (requests initial_state)) ''weather''
     = Inr \<lparr>StatusCode = 200, Body = ()\<rparr>
   \<and> decodeWeather (scenario_env 200 200 scenario_weather_without_id) () zero_WeatherResponse
     = Inr (scenario_weather_without_id zero_WeatherResponse)
   \<and> ID (scenario_weather_without_id zero_WeatherResponse) = ID zero_WeatherResponse
   \<and> fst (fetchWeatherData (scenario_env 200 200 scenario_weather_without_id) ''weather'' initial_state)
     = Inr ''0''
   \<and> requested initial_state
       (updateMetrics (scenario_env 200 200 scenario_weather_without_id) ''weather'' ''air_pollution''
          initial_state)
     = [''weather'', ''air_pollution'']"
proof -
  let ?env = "scenario_env 200 200 scenario_weather_without_id"
  have g: "httpGet ?env (length (requests initial_state)) ''weather'' = Inr \<lparr>StatusCode = 200, Body = ()\<rparr>"
    by (simp add: scenario_env_def)
  have c: "StatusCode \<lparr>StatusCode = 200, Body = ()\<rparr> = (200::int)" by simp
  have d: "decodeWeather ?env (Body \<lparr>StatusCode = 200, Body = ()\<rparr>) zero_WeatherResponse
             = Inr (scenario_weather_without_id zero_WeatherResponse)"
    by (simp add: scenario_env_def)
  have i: "ID (scenario_weather_without_id zero_WeatherResponse) = ID zero_WeatherResponse"
    by (simp add: scenario_weather_without_id_def)
  note th = station_label_is_id [OF g c d, of "''air_pollution''"]
  from th i have z: "Itoa (ID (scenario_weather_without_id zero_WeatherResponse)) = ''0''"
    by blast
  from th have "fst (fetchWeatherData ?env ''weather'' initial_state)
      = Inr (Itoa (ID (scenario_weather_without_id zero_WeatherResponse)))"
    and r: "requested initial_state (updateMetrics ?env ''weather'' ''air_pollution'' initial_state)
      = [''weather'', ''air_pollution'']"
    by blast+
  with z have "fst (fetchWeatherData ?env ''weather'' initial_state) = Inr ''0''" by simp
  with g d i r show ?thesis by simp
qed

end
